theory Spec2Isabelle
  imports Main "HOL-Library.Sublist"
begin

section \<open>Strings and the Python string operations the server uses\<close>

text \<open>
  A Python \<open>str\<close> is modelled as a \<open>string\<close> (a list of characters). The path
  logic of \<open>main.py\<close> only ever inspects the separator \<open>/\<close> and the dot, so
  the model does not depend on how characters beyond ASCII are represented.
\<close>

definition sep :: char where
  "sep = CHR ''/''"

text \<open>\<open>s.startswith(t)\<close>: \<open>t\<close> is a prefix of \<open>s\<close>.\<close>

definition startswith :: "string \<Rightarrow> string \<Rightarrow> bool" where
  "startswith s t = prefix t s"

text \<open>
  \<open>s.split(c)\<close> for a one-character separator: the pieces between the occurrences
  of \<open>c\<close>; the empty string gives one empty piece.
\<close>

fun split_on :: "char \<Rightarrow> string \<Rightarrow> string list" where
  "split_on c [] = [[]]"
| "split_on c (x # xs) =
     (if x = c then [] # split_on c xs
      else (case split_on c xs of
              [] \<Rightarrow> [[x]]
            | w # ws \<Rightarrow> (x # w) # ws))"

text \<open>\<open>c.join(xs)\<close> for a one-character separator.\<close>

fun join_on :: "char \<Rightarrow> string list \<Rightarrow> string" where
  "join_on c [] = []"
| "join_on c [x] = x"
| "join_on c (x # y # ys) = x @ c # join_on c (y # ys)"

section \<open>\<open>os.path.normpath\<close> (POSIX)\<close>

text \<open>
  The loop of \<open>posixpath.normpath\<close> over the components: empty and \<open>.\<close>
  components are skipped; a \<open>..\<close> is kept when nothing can be popped (a relative
  path with no component left, or a \<open>..\<close> on top), pops the last component
  otherwise, and is dropped at the root of an absolute path.
\<close>

fun normpath_comps :: "bool \<Rightarrow> string list \<Rightarrow> string list \<Rightarrow> string list" where
  "normpath_comps initial_slashes [] new_comps = new_comps"
| "normpath_comps initial_slashes (c # comps) new_comps =
     (if c = '''' \<or> c = ''.'' then normpath_comps initial_slashes comps new_comps
      else if c \<noteq> ''..'' \<or> (\<not> initial_slashes \<and> new_comps = [])
              \<or> (new_comps \<noteq> [] \<and> last new_comps = ''..'')
        then normpath_comps initial_slashes comps (new_comps @ [c])
      else if new_comps \<noteq> []
        then normpath_comps initial_slashes comps (butlast new_comps)
      else normpath_comps initial_slashes comps new_comps)"

definition normpath :: "string \<Rightarrow> string" where
  "normpath path =
     (if path = '''' then ''.''
      else
        let initial_slashes =
              (if startswith path ''/''
               then (if startswith path ''//'' \<and> \<not> startswith path ''///''
                     then 2 else 1)
               else (0::nat));
            comps = normpath_comps (initial_slashes \<noteq> 0) (split_on sep path) [];
            joined = join_on sep comps;
            res = (if initial_slashes \<noteq> 0
                   then replicate initial_slashes sep @ joined else joined)
        in if res = '''' then ''.'' else res)"

section \<open>\<open>pathlib.Path\<close> (pure POSIX paths)\<close>

text \<open>
  A \<open>PurePosixPath\<close> is its root (\<open>''''\<close>, \<open>/\<close> or \<open>//\<close>) and the list of
  its components; POSIX paths have no drive.
\<close>

record posix_path =
  root :: string
  tail :: "string list"

text \<open>
  \<open>posixpath.splitroot\<close>: a relative path has no root; exactly two leading
  slashes are kept as the root \<open>//\<close>; any other number of leading slashes is the
  root \<open>/\<close>.
\<close>

definition splitroot :: "string \<Rightarrow> string \<times> string" where
  "splitroot p =
     (if take 1 p \<noteq> ''/'' then ('''', p)
      else if take 1 (drop 1 p) \<noteq> ''/'' \<or> take 1 (drop 2 p) = ''/'' then (''/'', drop 1 p)
      else (take 2 p, drop 2 p))"

text \<open>
  \<open>Path(s)\<close>: the components of the part after the root, without the empty ones and
  without \<open>.\<close>; a \<open>..\<close> component is kept as it is.
\<close>

definition Path :: "string \<Rightarrow> posix_path" where
  "Path s =
     (if s = '''' then \<lparr>root = '''', tail = []\<rparr>
      else case splitroot s of
             (r, rel) \<Rightarrow>
               \<lparr>root = r, tail = filter (\<lambda>x. x \<noteq> '''' \<and> x \<noteq> ''.'') (split_on sep rel)\<rparr>)"

text \<open>\<open>str(p)\<close>: the root followed by the components joined by \<open>/\<close>; \<open>.\<close> when both are empty.\<close>

definition str :: "posix_path \<Rightarrow> string" where
  "str p = (let s = root p @ join_on sep (tail p) in if s = '''' then ''.'' else s)"

text \<open>
  \<open>p / key\<close> for a string \<open>key\<close>: an anchored \<open>key\<close> replaces \<open>p\<close>, a relative
  one appends its components to those of \<open>p\<close>. Nothing is resolved: a \<open>..\<close>
  component of \<open>key\<close> stays in the result.
\<close>

definition truediv :: "posix_path \<Rightarrow> string \<Rightarrow> posix_path" where
  "truediv p key =
     (let q = Path key
      in if root q \<noteq> '''' then q else \<lparr>root = root p, tail = tail p @ tail q\<rparr>)"

section \<open>Exceptions\<close>

text \<open>
  The exception classes that \<open>main.py\<close> raises or catches by name, each with its
  message; \<open>OtherError\<close> stands for any other subclass of \<open>Exception\<close> that the
  libraries raise, and \<open>Exception\<close> for the base class the code raises itself.
\<close>

datatype exn =
    ValueError string
  | FileNotFoundError string
  | PermissionError string
  | AttributeError string
  | UnicodeError string
  | OtherError string
  | Exception string

fun exn_str :: "exn \<Rightarrow> string" where
  "exn_str (ValueError m) = m"
| "exn_str (FileNotFoundError m) = m"
| "exn_str (PermissionError m) = m"
| "exn_str (AttributeError m) = m"
| "exn_str (UnicodeError m) = m"
| "exn_str (OtherError m) = m"
| "exn_str (Exception m) = m"

section \<open>Path confinement: \<open>_validate_path\<close>\<close>

text \<open>The argument of \<open>_validate_path\<close> is a \<open>str\<close> or a \<open>Path\<close>.\<close>

datatype path_arg = Str string | PathObj posix_path

text \<open>
  \<open>_validate_path\<close>: a string is normalised by \<open>normpath\<close> and joined to the base
  path when it does not start with \<open>/\<close>, and is taken as it is (through \<open>Path\<close>)
  when it does; a \<open>Path\<close> is taken as it is. The result is rejected with a
  \<open>ValueError\<close> unless its string starts with the string of the base path.
\<close>

definition validate_path :: "posix_path \<Rightarrow> path_arg \<Rightarrow> exn + posix_path" where
  "validate_path base_path path =
     (let full_path =
            (case path of
               Str p \<Rightarrow>
                 (let norm_path = normpath p
                  in if \<not> startswith p ''/'' then truediv base_path norm_path else Path p)
             | PathObj q \<Rightarrow> q);
          base_str = str base_path;
          path_str = str full_path
      in if \<not> startswith path_str base_str
         then Inl (ValueError (''Invalid path: Access denied. Path must be within '' @ base_str))
         else Inr full_path)"

section \<open>The SSH session\<close>

text \<open>
  The SSH library is outside the program: its answers are parameters of the model.
  A client object has an identity and, once \<open>connect\<close> has run, a transport that is
  active or not; an SFTP client is a channel opened on the transport of one client.
\<close>

datatype transport = Transport (is_active: bool)

record ssh_client =
  client_id :: nat
  get_transport :: "transport option"

record sftp_client =
  channel_of :: nat

type_synonym bytes = "nat list"

record connect_kwargs =
  kw_hostname :: string
  kw_port :: int
  kw_username :: "string option"
  kw_password :: "string option"
  kw_key_filename :: "string option"

text \<open>
  \<open>SSHClient.connect\<close> either succeeds, with an active transport, or raises; what the
  client's transport is after a failure is the library's business.
\<close>

datatype connect_result = ConnectOk | ConnectFailed exn "transport option"

record sftp_attr =
  filename :: string
  st_mode :: int
  st_size :: int
  st_mtime :: int

text \<open>
  The remote host and the SSH library, as the answers they give to each call. A
  command's answer is its whole standard output, its whole standard error and its exit
  status.
\<close>

record remote =
  connect :: "connect_kwargs \<Rightarrow> connect_result"
  open_sftp :: "exn option"
  sftp_close :: "exn option"
  ssh_close :: "exn option"
  getfo :: "string \<Rightarrow> exn + bytes"
  putfo :: "string \<Rightarrow> bytes \<Rightarrow> exn option"
  listdir_attr :: "string \<Rightarrow> exn + sftp_attr list"
  exec_command :: "string \<Rightarrow> exn + (bytes \<times> bytes \<times> int)"
  stat :: "string \<Rightarrow> exn + sftp_attr"

text \<open>
  The functions of the Python library whose tables are not part of the program: the
  UTF-8 codec (\<open>None\<close> is a \<open>UnicodeError\<close>) and \<open>mimetypes.guess_type\<close>.
\<close>

record pylib =
  decode_utf8 :: "bytes \<Rightarrow> string option"
  encode_utf8 :: "string \<Rightarrow> bytes option"
  guess_type :: "string \<Rightarrow> string option"

text \<open>The calls made on the SSH library, in the order they are issued.\<close>

datatype remote_call =
    CallConnect connect_kwargs
  | CallOpenSftp
  | CallSftpClose
  | CallSshClose
  | CallGetfo string
  | CallPutfo string bytes
  | CallListdirAttr string
  | CallExecCommand string
  | CallStat string

text \<open>
  \<open>RemoteSSHFileSystemManager\<close>: the configured fields and the two handles
  \<open>_ssh_client\<close> and \<open>_sftp_client\<close>. Two fields are bookkeeping of the model: the
  identity given to the next client object, and the log of library calls.
\<close>

record manager =
  hostname :: string
  port :: int
  username :: "string option"
  password :: "string option"
  key_filename :: "string option"
  base_path :: posix_path
  ssh_client :: "ssh_client option"
  sftp_client :: "sftp_client option"
  next_client :: nat
  calls :: "remote_call list"

definition init_manager ::
  "string \<Rightarrow> int \<Rightarrow> string option \<Rightarrow> string option \<Rightarrow> string option \<Rightarrow> string \<Rightarrow> manager" where
  "init_manager h p u pw k b =
     \<lparr>hostname = h, port = p, username = u, password = pw, key_filename = k,
      base_path = Path b, ssh_client = None, sftp_client = None,
      next_client = 0, calls = []\<rparr>"

definition log_call :: "remote_call \<Rightarrow> manager \<Rightarrow> manager" where
  "log_call c s = s\<lparr>calls := calls s @ [c]\<rparr>"

text \<open>Truth value of an optional string: \<open>None\<close> and the empty string are false.\<close>

definition truthy_str :: "string option \<Rightarrow> bool" where
  "truthy_str v = (case v of None \<Rightarrow> False | Some x \<Rightarrow> x \<noteq> '''')"

text \<open>
  The guard of \<open>remote_connect\<close>: a client is stored, it has a transport, and the
  transport is active. The SFTP handle is not looked at.
\<close>

definition transport_active :: "manager \<Rightarrow> bool" where
  "transport_active s =
     (case ssh_client s of
        None \<Rightarrow> False
      | Some c \<Rightarrow> (case get_transport c of None \<Rightarrow> False | Some t \<Rightarrow> is_active t))"

definition make_connect_kwargs :: "manager \<Rightarrow> connect_kwargs" where
  "make_connect_kwargs s =
     \<lparr>kw_hostname = hostname s, kw_port = port s, kw_username = username s,
      kw_password = (if truthy_str (password s) then password s else None),
      kw_key_filename = (if truthy_str (key_filename s) then key_filename s else None)\<rparr>"

text \<open>
  \<open>remote_connect\<close>: returns at once on an active transport; otherwise stores a new
  client, connects it, and opens the SFTP channel on it. An exception of either call
  is raised again, with the handles left as they are at that point.
\<close>

definition remote_connect :: "remote \<Rightarrow> manager \<Rightarrow> exn option \<times> manager" where
  "remote_connect env s =
     (if transport_active s then (None, s)
      else
        let c = \<lparr>client_id = next_client s, get_transport = None\<rparr>;
            s1 = s\<lparr>ssh_client := Some c, next_client := Suc (next_client s)\<rparr>;
            kw = make_connect_kwargs s1;
            s2 = log_call (CallConnect kw) s1
        in case connect env kw of
             ConnectFailed e t \<Rightarrow> (Some e, s2\<lparr>ssh_client := Some (c\<lparr>get_transport := t\<rparr>)\<rparr>)
           | ConnectOk \<Rightarrow>
               (let s3 = s2\<lparr>ssh_client := Some (c\<lparr>get_transport := Some (Transport True)\<rparr>)\<rparr>;
                    s4 = log_call CallOpenSftp s3
                in case open_sftp env of
                     Some e \<Rightarrow> (Some e, s4)
                   | None \<Rightarrow> (None, s4\<lparr>sftp_client := Some \<lparr>channel_of = client_id c\<rparr>\<rparr>)))"

text \<open>
  \<open>remote_close\<close>: closes and forgets the SFTP handle if there is one, then the SSH
  client if there is one.
\<close>

definition remote_close :: "remote \<Rightarrow> manager \<Rightarrow> exn option \<times> manager" where
  "remote_close env s =
     (case (if sftp_client s \<noteq> None
            then (case sftp_close env of
                    Some e \<Rightarrow> (Some e, log_call CallSftpClose s)
                  | None \<Rightarrow> (None, (log_call CallSftpClose s)\<lparr>sftp_client := None\<rparr>))
            else (None, s)) of
        (Some e, s1) \<Rightarrow> (Some e, s1)
      | (None, s1) \<Rightarrow>
          (if ssh_client s1 \<noteq> None
           then (case ssh_close env of
                   Some e \<Rightarrow> (Some e, log_call CallSshClose s1)
                 | None \<Rightarrow> (None, (log_call CallSshClose s1)\<lparr>ssh_client := None\<rparr>))
           else (None, s1)))"

text \<open>
  The two states the specification names: disconnected (no handle at all), and
  connected (a client with an active transport and an SFTP channel opened on that
  client).
\<close>

definition disconnected :: "manager \<Rightarrow> bool" where
  "disconnected s = (ssh_client s = None \<and> sftp_client s = None)"

definition connected :: "manager \<Rightarrow> bool" where
  "connected s =
     (case ssh_client s of
        None \<Rightarrow> False
      | Some c \<Rightarrow>
          get_transport c = Some (Transport True) \<and>
          (case sftp_client s of None \<Rightarrow> False | Some f \<Rightarrow> channel_of f = client_id c))"

section \<open>Remote filesystem operations\<close>

text \<open>The \<open>AttributeError\<close> of a method call on a handle that is \<open>None\<close>.\<close>

definition none_attribute_error :: "string \<Rightarrow> exn" where
  "none_attribute_error attr =
     AttributeError (CHR 0x27 # ''NoneType'' @ CHR 0x27 # '' object has no attribute ''
                     @ CHR 0x27 # attr @ [CHR 0x27])"

text \<open>The \<open>except\<close> clauses of \<open>remote_read_file\<close>, in their order.\<close>

definition reraise_read :: "string \<Rightarrow> exn \<Rightarrow> exn" where
  "reraise_read path e =
     (case e of
        FileNotFoundError _ \<Rightarrow> FileNotFoundError (''File not found: '' @ path)
      | PermissionError _ \<Rightarrow> PermissionError (''Permission denied: '' @ path)
      | _ \<Rightarrow> Exception (''Error reading file '' @ path @ '': '' @ exn_str e))"

text \<open>
  \<open>remote_read_file\<close>: connect, confine the path, fetch the file, decode it and guess
  its media type. The confinement runs outside the \<open>try\<close>, so its \<open>ValueError\<close> is
  raised as it is, before \<open>getfo\<close> is called.
\<close>

definition remote_read_file ::
  "remote \<Rightarrow> pylib \<Rightarrow> manager \<Rightarrow> string \<Rightarrow> (exn + string \<times> string) \<times> manager" where
  "remote_read_file env lib s path =
     (case remote_connect env s of
        (Some e, s1) \<Rightarrow> (Inl e, s1)
      | (None, s1) \<Rightarrow>
          (case validate_path (base_path s1) (Str path) of
             Inl e \<Rightarrow> (Inl e, s1)
           | Inr full_path \<Rightarrow>
               (case sftp_client s1 of
                  None \<Rightarrow> (Inl (reraise_read path (none_attribute_error ''getfo'')), s1)
                | Some f \<Rightarrow>
                    (let s2 = log_call (CallGetfo (str full_path)) s1
                     in case getfo env (str full_path) of
                          Inl e \<Rightarrow> (Inl (reraise_read path e), s2)
                        | Inr data \<Rightarrow>
                            (case decode_utf8 lib data of
                               None \<Rightarrow> (Inl (reraise_read path (UnicodeError ''utf-8'')), s2)
                             | Some content \<Rightarrow>
                                 (let mime_type = guess_type lib (str full_path)
                                  in (Inr (content,
                                           case mime_type of
                                             None \<Rightarrow> ''text/plain''
                                           | Some m \<Rightarrow> if m = '''' then ''text/plain'' else m),
                                      s2)))))))"

definition reraise_write :: "string \<Rightarrow> exn \<Rightarrow> exn" where
  "reraise_write path e =
     (case e of
        PermissionError _ \<Rightarrow> PermissionError (''Permission denied: '' @ path)
      | _ \<Rightarrow> Exception (''Error writing file '' @ path @ '': '' @ exn_str e))"

text \<open>\<open>remote_write_file\<close>: connect, confine the path, encode the content, upload it.\<close>

definition remote_write_file ::
  "remote \<Rightarrow> pylib \<Rightarrow> manager \<Rightarrow> string \<Rightarrow> string \<Rightarrow> (exn + unit) \<times> manager" where
  "remote_write_file env lib s path content =
     (case remote_connect env s of
        (Some e, s1) \<Rightarrow> (Inl e, s1)
      | (None, s1) \<Rightarrow>
          (case validate_path (base_path s1) (Str path) of
             Inl e \<Rightarrow> (Inl e, s1)
           | Inr full_path \<Rightarrow>
               (case encode_utf8 lib content of
                  None \<Rightarrow> (Inl (reraise_write path (UnicodeError ''utf-8'')), s1)
                | Some data \<Rightarrow>
                    (case sftp_client s1 of
                       None \<Rightarrow> (Inl (reraise_write path (none_attribute_error ''putfo'')), s1)
                     | Some f \<Rightarrow>
                         (let s2 = log_call (CallPutfo (str full_path) data) s1
                          in case putfo env (str full_path) data of
                               Some e \<Rightarrow> (Inl (reraise_write path e), s2)
                             | None \<Rightarrow> (Inr (), s2))))))"

text \<open>\<open>stat.S_ISDIR\<close>: the file-type bits of the mode are those of a directory.\<close>

definition S_ISDIR :: "int \<Rightarrow> bool" where
  "S_ISDIR mode = ((mode div 4096) mod 16 = 4)"

record dir_item =
  item_name :: string
  item_path :: string
  item_type :: string
  item_size :: "int option"
  item_permissions :: int
  item_modified :: int

text \<open>
  One entry of a listing. Its path is the child's name joined to the \<open>path\<close>
  argument, or the bare name when the argument is empty.
\<close>

definition list_item :: "string \<Rightarrow> sftp_attr \<Rightarrow> dir_item" where
  "list_item path attr =
     (let is_dir = S_ISDIR (st_mode attr);
          p = (if path \<noteq> '''' then str (truediv (Path path) (filename attr))
               else filename attr)
      in \<lparr>item_name = filename attr,
          item_path = p,
          item_type = (if is_dir then ''directory'' else ''file''),
          item_size = (if \<not> is_dir then Some (st_size attr) else None),
          item_permissions = st_mode attr,
          item_modified = st_mtime attr\<rparr>)"

definition reraise_list :: "string \<Rightarrow> exn \<Rightarrow> exn" where
  "reraise_list path e =
     (case e of
        FileNotFoundError _ \<Rightarrow> FileNotFoundError (''Directory not found: '' @ path)
      | PermissionError _ \<Rightarrow> PermissionError (''Permission denied: '' @ path)
      | _ \<Rightarrow> Exception (''Error listing directory '' @ path @ '': '' @ exn_str e))"

text \<open>
  \<open>remote_list_directory\<close>: connect; the empty path is the base path itself, any other
  path is confined; then the directory is listed, one entry per child in the order of
  the answer.
\<close>

definition remote_list_directory ::
  "remote \<Rightarrow> manager \<Rightarrow> string \<Rightarrow> (exn + dir_item list) \<times> manager" where
  "remote_list_directory env s path =
     (case remote_connect env s of
        (Some e, s1) \<Rightarrow> (Inl e, s1)
      | (None, s1) \<Rightarrow>
          (case (if path = '''' then Inr (base_path s1)
                 else validate_path (base_path s1) (Str path)) of
             Inl e \<Rightarrow> (Inl e, s1)
           | Inr full_path \<Rightarrow>
               (case sftp_client s1 of
                  None \<Rightarrow> (Inl (reraise_list path (none_attribute_error ''listdir_attr'')), s1)
                | Some f \<Rightarrow>
                    (let s2 = log_call (CallListdirAttr (str full_path)) s1
                     in case listdir_attr env (str full_path) of
                          Inl e \<Rightarrow> (Inl (reraise_list path e), s2)
                        | Inr attr_list \<Rightarrow> (Inr (map (list_item path) attr_list), s2)))))"

section \<open>Search and command execution\<close>

text \<open>
  \<open>str.splitlines\<close>: the line boundaries among the characters of a \<open>string\<close> are
  line feed, carriage return (with a following line feed as one boundary), vertical
  tab, form feed, the file, group and record separators, and next line.
\<close>

definition is_linebreak :: "char \<Rightarrow> bool" where
  "is_linebreak c =
     (c \<in> set [CHR 0x0A, CHR 0x0D, CHR 0x0B, CHR 0x0C, CHR 0x1C, CHR 0x1D, CHR 0x1E, CHR 0x85])"

fun splitlines_from :: "bool \<Rightarrow> string \<Rightarrow> string \<Rightarrow> string list" where
  "splitlines_from after_cr cur [] = (if cur = [] then [] else [rev cur])"
| "splitlines_from after_cr cur (x # xs) =
     (if x = CHR 0x0A \<and> after_cr then splitlines_from False cur xs
      else if is_linebreak x then rev cur # splitlines_from (x = CHR 0x0D) [] xs
      else splitlines_from False (x # cur) xs)"

definition splitlines :: "string \<Rightarrow> string list" where
  "splitlines s = splitlines_from False [] s"

text \<open>\<open>str.isspace\<close> on one character, and whether \<open>s.strip()\<close> is empty.\<close>

definition is_space :: "char \<Rightarrow> bool" where
  "is_space c =
     (c \<in> set [CHR 0x09, CHR 0x0A, CHR 0x0B, CHR 0x0C, CHR 0x0D, CHR 0x1C, CHR 0x1D,
                CHR 0x1E, CHR 0x1F, CHR 0x20, CHR 0x85, CHR 0xA0])"

definition strip_empty :: "string \<Rightarrow> bool" where
  "strip_empty s = list_all is_space s"

text \<open>\<open>os.path.basename\<close>: what follows the last separator.\<close>

definition basename :: "string \<Rightarrow> string" where
  "basename p = rev (takeWhile (\<lambda>c. c \<noteq> sep) (rev p))"

record search_item =
  found_name :: string
  found_path :: string
  found_type :: string
  found_size :: "int option"

text \<open>
  The path shown for a search result: the reported path itself when the base path is
  \<open>/\<close>; otherwise the reported path without its first \<open>len(str(base_path))\<close>
  characters and without the separators that then lead it.
\<close>

definition rel_path :: "posix_path \<Rightarrow> string \<Rightarrow> string" where
  "rel_path base file_path =
     (if str base \<noteq> ''/''
      then dropWhile (\<lambda>c. c = sep) (drop (length (str base)) file_path)
      else file_path)"

text \<open>
  The loop over the reported paths: blank lines are skipped; each other path is
  looked up with \<open>stat\<close>, and an entry whose lookup raises is dropped.
\<close>

fun search_loop ::
  "remote \<Rightarrow> string list \<Rightarrow> manager \<Rightarrow> search_item list \<Rightarrow> search_item list \<times> manager" where
  "search_loop env [] s results = (results, s)"
| "search_loop env (file_path # file_list) s results =
     (if strip_empty file_path then search_loop env file_list s results
      else
        (case sftp_client s of
           None \<Rightarrow> search_loop env file_list s results
         | Some f \<Rightarrow>
             (let s1 = log_call (CallStat file_path) s
              in case stat env file_path of
                   Inl e \<Rightarrow> search_loop env file_list s1 results
                 | Inr stat_info \<Rightarrow>
                     (let is_dir = S_ISDIR (st_mode stat_info)
                      in search_loop env file_list s1
                           (results @
                            [\<lparr>found_name = basename file_path,
                              found_path = rel_path (base_path s1) file_path,
                              found_type = (if is_dir then ''directory'' else ''file''),
                              found_size = (if \<not> is_dir then Some (st_size stat_info)
                                            else None)\<rparr>])))))"

text \<open>The shell command of a search: a \<open>find\<close> rooted at \<open>base_dir\<close>.\<close>

definition find_command :: "string \<Rightarrow> string \<Rightarrow> string" where
  "find_command base_dir pattern =
     ''find '' @ base_dir @ '' -name '' @ CHR 0x27 # ''*'' @ pattern @ ''*'' @ CHR 0x27 #
     '' -type f -o -name '' @ CHR 0x27 # ''*'' @ pattern @ ''*'' @ CHR 0x27 #
     '' -type d 2>/dev/null''"

text \<open>
  \<open>remote_search_files\<close>: the root of the search is the \<open>path\<close> argument as it is
  given, or the base path when the argument is empty; the command is built from it,
  the session is connected, the command is run, and its output lines are looked up.
\<close>

definition remote_search_files ::
  "remote \<Rightarrow> pylib \<Rightarrow> manager \<Rightarrow> string \<Rightarrow> string \<Rightarrow> (exn + search_item list) \<times> manager" where
  "remote_search_files env lib s pattern path =
     (let base_dir = (if path \<noteq> '''' then path else str (base_path s));
          command = find_command base_dir pattern
      in case remote_connect env s of
           (Some e, s1) \<Rightarrow> (Inl e, s1)
         | (None, s1) \<Rightarrow>
             (case ssh_client s1 of
                None \<Rightarrow> (Inl (none_attribute_error ''exec_command''), s1)
              | Some c \<Rightarrow>
                  (let s2 = log_call (CallExecCommand command) s1
                   in case exec_command env command of
                        Inl e \<Rightarrow> (Inl e, s2)
                      | Inr (out, err, status) \<Rightarrow>
                          (case decode_utf8 lib out of
                             None \<Rightarrow> (Inl (UnicodeError ''utf-8''), s2)
                           | Some text \<Rightarrow>
                               (case search_loop env (splitlines text) s2 [] of
                                  (results, s3) \<Rightarrow> (Inr results, s3))))))"

text \<open>
  \<open>remote_execute_command\<close>: connect, run the command as given, read both streams to
  their end and decode them. The exit status of the command is not read.
\<close>

definition remote_execute_command ::
  "remote \<Rightarrow> pylib \<Rightarrow> manager \<Rightarrow> string \<Rightarrow> (exn + string \<times> string) \<times> manager" where
  "remote_execute_command env lib s command =
     (case remote_connect env s of
        (Some e, s1) \<Rightarrow> (Inl e, s1)
      | (None, s1) \<Rightarrow>
          (case ssh_client s1 of
             None \<Rightarrow> (Inl (none_attribute_error ''exec_command''), s1)
           | Some c \<Rightarrow>
               (let s2 = log_call (CallExecCommand command) s1
                in case exec_command env command of
                     Inl e \<Rightarrow> (Inl e, s2)
                   | Inr (out, err, status) \<Rightarrow>
                       (case decode_utf8 lib out of
                          None \<Rightarrow> (Inl (UnicodeError ''utf-8''), s2)
                        | Some out_text \<Rightarrow>
                            (case decode_utf8 lib err of
                               None \<Rightarrow> (Inl (UnicodeError ''utf-8''), s2)
                             | Some err_text \<Rightarrow> (Inr (out_text, err_text), s2))))))"

section \<open>Resources\<close>

text \<open>
  The protocol library is outside the program. The \<open>uri\<close> of a \<open>Resource\<close> and
  the \<open>uri\<close> of a read request are not strings but URL objects (\<open>AnyUrl\<close>): the
  library parses the text it is given, which may rewrite it (percent-encoding,
  normalisation of the path) or refuse it, and the object has none of the methods of
  \<open>str\<close>. The parser is a parameter of the model; \<open>None\<close> is its validation
  error.
\<close>

datatype url = AnyUrl string

record mcplib =
  any_url :: "string \<Rightarrow> url option"

record resource =
  res_uri :: url
  res_name :: string
  res_mimeType :: string
  res_description :: string

text \<open>
  The resource made from one entry of the listing of the base path. The identifier
  is built as the text \<open>ssh://\<close>, host name, \<open>/\<close>, path of the entry, and handed
  to the \<open>Resource\<close> constructor, which parses it.
\<close>

definition resource_of :: "pylib \<Rightarrow> mcplib \<Rightarrow> string \<Rightarrow> dir_item \<Rightarrow> exn + resource" where
  "resource_of lib mcp host item =
     (let uri = ''ssh://'' @ host @ ''/'' @ item_path item;
          name = item_name item;
          mimeType =
            (if item_type item = ''directory'' then ''inode/directory''
             else (case guess_type lib (item_name item) of
                     None \<Rightarrow> ''text/plain''
                   | Some m \<Rightarrow> if m = '''' then ''text/plain'' else m));
          description =
            (if item_type item = ''directory'' then ''Directory'' else ''File'')
            @ '': '' @ item_path item
      in case any_url mcp uri of
           None \<Rightarrow> Inl (ValueError ''validation error for Resource'')
         | Some u \<Rightarrow>
             Inr \<lparr>res_uri = u, res_name = name, res_mimeType = mimeType,
                  res_description = description\<rparr>)"

text \<open>The list comprehension over the entries: the first constructor that raises ends it.\<close>

fun resources_of :: "pylib \<Rightarrow> mcplib \<Rightarrow> string \<Rightarrow> dir_item list \<Rightarrow> exn + resource list" where
  "resources_of lib mcp host [] = Inr []"
| "resources_of lib mcp host (item # items) =
     (case resource_of lib mcp host item of
        Inl e \<Rightarrow> Inl e
      | Inr r \<Rightarrow>
          (case resources_of lib mcp host items of
             Inl e \<Rightarrow> Inl e
           | Inr rs \<Rightarrow> Inr (r # rs)))"

text \<open>\<open>list_resources\<close>: the listing of the base path, one resource per entry.\<close>

definition list_resources ::
  "remote \<Rightarrow> pylib \<Rightarrow> mcplib \<Rightarrow> manager \<Rightarrow> (exn + resource list) \<times> manager" where
  "list_resources env lib mcp s =
     (case remote_list_directory env s '''' of
        (Inl e, s1) \<Rightarrow> (Inl e, s1)
      | (Inr items, s1) \<Rightarrow> (resources_of lib mcp (hostname s1) items, s1))"

text \<open>\<open>s.split(c, n)\<close>: at most \<open>n\<close> splits, the rest of the string is the last piece.\<close>

fun split_max :: "char \<Rightarrow> nat \<Rightarrow> string \<Rightarrow> string list" where
  "split_max c 0 s = [s]"
| "split_max c (Suc n) [] = [[]]"
| "split_max c (Suc n) (x # xs) =
     (if x = c then [] # split_max c n xs
      else (case split_max c (Suc n) xs of
              [] \<Rightarrow> [[x]]
            | w # ws \<Rightarrow> (x # w) # ws))"

text \<open>
  The path of a resource identifier: the fourth piece of the split at the first three
  separators when the identifier has at least three separators, the empty string
  otherwise. An index out of range raises.
\<close>

definition uri_path :: "string \<Rightarrow> exn + string" where
  "uri_path uri =
     (if 3 \<le> count_list uri sep
      then (case drop 3 (split_max sep 3 uri) of
              [] \<Rightarrow> Inl (OtherError ''list index out of range'')
            | p # _ \<Rightarrow> Inr p)
      else Inr '''')"

text \<open>
  The argument of \<open>read_resource\<close>. The handler is annotated with \<open>str\<close>; the
  dispatcher of the protocol library, its only caller, passes the URL object of the
  request.
\<close>

datatype uri_arg = UriStr string | UriObj url

text \<open>The \<open>AttributeError\<close> of a \<open>str\<close> method called on a URL object.\<close>

definition url_attribute_error :: "string \<Rightarrow> exn" where
  "url_attribute_error attr =
     AttributeError (CHR 0x27 # ''AnyUrl'' @ CHR 0x27 # '' object has no attribute ''
                     @ CHR 0x27 # attr @ [CHR 0x27])"

text \<open>
  \<open>read_resource\<close>: the first thing done with the identifier is \<open>uri.count('/')\<close>.
  On a string the path is extracted and the content that \<open>remote_read_file\<close> gives
  for it is returned; on a URL object the method does not exist and the call raises.
\<close>

definition read_resource ::
  "remote \<Rightarrow> pylib \<Rightarrow> manager \<Rightarrow> uri_arg \<Rightarrow> (exn + string) \<times> manager" where
  "read_resource env lib s uri =
     (case uri of
        UriObj u \<Rightarrow> (Inl (url_attribute_error ''count''), s)
      | UriStr x \<Rightarrow>
          (case uri_path x of
             Inl e \<Rightarrow> (Inl e, s)
           | Inr path \<Rightarrow>
               (case remote_read_file env lib s path of
                  (Inl e, s1) \<Rightarrow> (Inl e, s1)
                | (Inr (content, mime), s1) \<Rightarrow> (Inr content, s1))))"

section \<open>Startup configuration\<close>

text \<open>
  The configuration is a dictionary, from the command line or from a JSON file, so
  its values are JSON values (numbers are the integers here). A value is false when it
  is \<open>null\<close>, \<open>false\<close>, zero or empty.
\<close>

datatype json =
    JNull
  | JBool bool
  | JInt int
  | JStr string
  | JList "json list"
  | JObj "(string \<times> json) list"

fun truthy :: "json \<Rightarrow> bool" where
  "truthy JNull = False"
| "truthy (JBool b) = b"
| "truthy (JInt i) = (i \<noteq> 0)"
| "truthy (JStr x) = (x \<noteq> '''')"
| "truthy (JList xs) = (xs \<noteq> [])"
| "truthy (JObj kvs) = (kvs \<noteq> [])"

type_synonym config = "string \<rightharpoonup> json"

text \<open>\<open>d.get(k)\<close>: the value of the key, \<open>None\<close> when the key is absent.\<close>

definition dict_get :: "config \<Rightarrow> string \<Rightarrow> json" where
  "dict_get d k = (case d k of None \<Rightarrow> JNull | Some v \<Rightarrow> v)"

text \<open>
  The three \<open>ValueError\<close>s of \<open>main\<close>, named by what their message asks for: the
  host name, the user name, a password or a key file.
\<close>

datatype config_error = HostnameRequired | UsernameRequired | PasswordOrKeyRequired

text \<open>
  The checks of \<open>main\<close> before the server is built, in their order: \<open>Inl\<close> is the
  error raised, \<open>Inr\<close> the configuration the server is built from.
\<close>

definition check_config :: "config \<Rightarrow> config_error + config" where
  "check_config ssh_config =
     (if \<not> truthy (dict_get ssh_config ''hostname'') then Inl HostnameRequired
      else if \<not> truthy (dict_get ssh_config ''username'') then Inl UsernameRequired
      else if \<not> truthy (dict_get ssh_config ''password'')
              \<and> \<not> truthy (dict_get ssh_config ''key_filename'')
        then Inl PasswordOrKeyRequired
      else Inr ssh_config)"

section \<open>The session invariant\<close>

text \<open>
  The invariant of the specification: a session is either disconnected or connected
  with an active transport and a sub-channel opened on it.
\<close>

definition session_invariant :: "manager \<Rightarrow> bool" where
  "session_invariant s = (disconnected s \<or> connected s)"

section \<open>A concrete host\<close>

text \<open>
  A host that accepts the connection and answers every call: its base directory holds
  a file \<open>a\<close> of ten bytes and a directory \<open>b\<close>, every file reads as \<open>hi\<close>, and
  every command prints \<open>hi\<close> and exits with status 1. The codec is the one of
  ASCII.
\<close>

definition example_remote :: remote where
  "example_remote =
     \<lparr>connect = (\<lambda>kw. ConnectOk),
      open_sftp = None,
      sftp_close = None,
      ssh_close = None,
      getfo = (\<lambda>p. Inr [104, 105]),
      putfo = (\<lambda>p d. None),
      listdir_attr =
        (\<lambda>p. Inr [\<lparr>filename = ''a'', st_mode = 33188, st_size = 10, st_mtime = 0\<rparr>,
                  \<lparr>filename = ''b'', st_mode = 16877, st_size = 4096, st_mtime = 0\<rparr>]),
      exec_command = (\<lambda>c. Inr ([104, 105, 10], [], 1)),
      stat = (\<lambda>p. Inl (FileNotFoundError p))\<rparr>"

definition example_lib :: pylib where
  "example_lib =
     \<lparr>decode_utf8 = (\<lambda>b. if list_all (\<lambda>n. n < 128) b then Some (map char_of b) else None),
      encode_utf8 = (\<lambda>s. Some (map of_char s)),
      guess_type = (\<lambda>n. None)\<rparr>"

definition example_manager :: manager where
  "example_manager =
     init_manager ''host'' 22 (Some ''user'') (Some ''secret'') None ''/home/user''"

text \<open>
  A URL parser that accepts every identifier and percent-encodes the spaces in it, and
  the same host with a file whose name has a space.
\<close>

definition example_mcp :: mcplib where
  "example_mcp =
     \<lparr>any_url = (\<lambda>t. Some (AnyUrl (concat (map (\<lambda>c. if c = CHR '' '' then ''%20'' else [c]) t))))\<rparr>"

definition spaced_remote :: remote where
  "spaced_remote =
     example_remote
       \<lparr>listdir_attr :=
          (\<lambda>p. Inr [\<lparr>filename = ''a b'', st_mode = 33188, st_size = 10, st_mtime = 0\<rparr>])\<rparr>"

text \<open>The same host when the SFTP subsystem refuses the channel.\<close>

definition no_sftp_remote :: remote where
  "no_sftp_remote = example_remote\<lparr>open_sftp := Some (OtherError ''Channel closed.'')\<rparr>"

text \<open>A configuration that carries both a password and a key file.\<close>

definition both_credentials :: config where
  "both_credentials =
     [''hostname'' \<mapsto> JStr ''host'', ''username'' \<mapsto> JStr ''user'',
      ''password'' \<mapsto> JStr ''secret'', ''key_filename'' \<mapsto> JStr ''/home/user/.ssh/id_rsa'']"

text \<open>Configurations that lack the credentials, the host name, the user name.\<close>

definition no_credentials :: config where
  "no_credentials = [''hostname'' \<mapsto> JStr ''host'', ''username'' \<mapsto> JStr ''user'']"

definition no_hostname :: config where
  "no_hostname = [''username'' \<mapsto> JStr ''user'', ''password'' \<mapsto> JStr ''secret'']"

definition no_username :: config where
  "no_username = [''hostname'' \<mapsto> JStr ''host'', ''username'' \<mapsto> JNull,
                  ''password'' \<mapsto> JStr ''secret'']"

section \<open>Properties of path confinement\<close>

lemma truediv_dot: "truediv b ''.'' = b"
  by (simp add: truediv_def Path_def splitroot_def sep_def)

lemma validate_path_empty: "validate_path base (Str '''') = Inr base"
  by (simp add: validate_path_def normpath_def startswith_def truediv_dot)

text \<open>
  The components of \<open>Path(p)\<close> are those of \<open>p\<close> without the empty ones and
  without \<open>.\<close>, whatever the root of \<open>p\<close> is.
\<close>

lemma tail_Path: "tail (Path p) = filter (\<lambda>x. x \<noteq> '''' \<and> x \<noteq> ''.'') (split_on sep p)"
proof (cases p)
  case Nil
  then show ?thesis by (simp add: Path_def)
next
  case (Cons a as)
  then show ?thesis
    by (cases as) (auto simp add: Path_def splitroot_def sep_def split: list.splits)
qed

text \<open>What the check of \<open>_validate_path\<close> does give: the base string is a prefix.\<close>

lemma validate_path_accepted:
  "validate_path base p = Inr q \<Longrightarrow> startswith (str q) (str base)"
  by (auto simp add: validate_path_def Let_def split: if_splits)

text \<open>
  C1. A confined path should equal the root or have the root followed by the
  separator as a prefix, and a sibling such as \<open>/ab\<close> for the root \<open>/a\<close> should be
  rejected. The check is a bare string prefix: for the root \<open>/a\<close> the candidate
  \<open>/ab\<close> is accepted and returned, although it is neither the root nor below
  \<open>/a/\<close>.
\<close>

theorem validate_path_accepts_sibling:
  "validate_path (Path ''/a'') (Str ''/ab'') = Inr (Path ''/ab'')
   \<and> str (Path ''/a'') = ''/a'' \<and> str (Path ''/ab'') = ''/ab''
   \<and> ''/ab'' \<noteq> ''/a'' \<and> \<not> startswith ''/ab'' (''/a'' @ [sep])"
  by (simp add: validate_path_def Path_def splitroot_def str_def startswith_def
        normpath_def sep_def)

text \<open>
  C3. A relative candidate should have its \<open>..\<close> segments resolved away before it
  is joined to the root, so that a path leaving the root is rejected. \<open>normpath\<close>
  keeps the leading \<open>..\<close> of a relative path and the join resolves nothing: for
  the root \<open>/base\<close> the candidate \<open>../etc/passwd\<close> is accepted as
  \<open>/base/../etc/passwd\<close>, which names \<open>/etc/passwd\<close>, outside the root.
\<close>

theorem validate_path_accepts_dotdot_escape:
  "validate_path (Path ''/base'') (Str ''../etc/passwd'')
     = Inr \<lparr>root = ''/'', tail = [''base'', ''..'', ''etc'', ''passwd'']\<rparr>
   \<and> normpath ''../etc/passwd'' = ''../etc/passwd''
   \<and> str \<lparr>root = ''/'', tail = [''base'', ''..'', ''etc'', ''passwd'']\<rparr>
       = ''/base/../etc/passwd''
   \<and> normpath ''/base/../etc/passwd'' = ''/etc/passwd''
   \<and> \<not> startswith ''/etc/passwd'' (str (Path ''/base''))"
  by (simp add: validate_path_def Path_def splitroot_def str_def startswith_def
        normpath_def sep_def truediv_def)

text \<open>
  For a candidate that starts with the separator, the root of \<open>Path(candidate)\<close>
  is \<open>//\<close> for exactly two leading separators and \<open>/\<close> otherwise, and its
  string is the root followed by the components joined by the separator.
\<close>

lemma root_Path_absolute:
  assumes "startswith p ''/''"
  shows "root (Path p) = (if startswith p ''//'' \<and> \<not> startswith p ''///'' then ''//'' else ''/'')"
proof -
  from assms obtain r where p: "p = CHR ''/'' # r" by (cases p) (auto simp add: startswith_def)
  show ?thesis
  proof (cases r)
    case Nil
    with p show ?thesis by (simp add: Path_def splitroot_def startswith_def)
  next
    case (Cons x xs)
    with p show ?thesis
      by (cases xs) (auto simp add: Path_def splitroot_def startswith_def)
  qed
qed

lemma str_Path_absolute:
  assumes "startswith p ''/''"
  shows "str (Path p) = root (Path p) @ join_on sep (tail (Path p))"
  using root_Path_absolute [OF assms] by (simp add: str_def Let_def)

text \<open>
  C10, as stated, fails. \<open>Path(candidate)\<close> is itself a lexical normalisation:
  for the root \<open>/a/b\<close> the candidate \<open>/a//b/./c/\<close> is accepted and returned
  as \<open>/a/b/c\<close>, although the candidate's own string does not start with the
  string of the root.
\<close>

theorem validate_path_absolute_normalizes:
  "startswith ''/a//b/./c/'' ''/''
   \<and> validate_path (Path ''/a/b'') (Str ''/a//b/./c/'') = Inr (Path ''/a//b/./c/'')
   \<and> str (Path ''/a//b/./c/'') = ''/a/b/c''
   \<and> ''/a/b/c'' \<noteq> ''/a//b/./c/''
   \<and> \<not> startswith ''/a//b/./c/'' (str (Path ''/a/b''))"
  by (simp add: validate_path_def Path_def splitroot_def str_def startswith_def
        normpath_def sep_def)

text \<open>
  C10, amended. For a candidate that starts with the separator, the result of
  \<open>normpath\<close> is not used and no \<open>..\<close> is resolved: the confined path is
  \<open>Path(candidate)\<close>, which drops the empty and the \<open>.\<close> components
  (repeated and trailing separators with them) and keeps every other component,
  every \<open>..\<close> included, in its place; and the prefix check is made on the string
  of that path.
\<close>

theorem validate_path_absolute_unresolved:
  assumes "startswith p ''/''"
  shows "validate_path base (Str p) =
           (if startswith (str (Path p)) (str base) then Inr (Path p)
            else Inl (ValueError
                       (''Invalid path: Access denied. Path must be within '' @ str base)))
         \<and> root (Path p) =
             (if startswith p ''//'' \<and> \<not> startswith p ''///'' then ''//'' else ''/'')
         \<and> tail (Path p) = filter (\<lambda>x. x \<noteq> '''' \<and> x \<noteq> ''.'') (split_on sep p)
         \<and> str (Path p) = root (Path p) @ join_on sep (tail (Path p))
         \<and> filter (\<lambda>x. x = ''..'') (tail (Path p)) = filter (\<lambda>x. x = ''..'') (split_on sep p)"
proof -
  have "filter (\<lambda>x. x = ''..'') (filter (\<lambda>x. x \<noteq> '''' \<and> x \<noteq> ''.'') (split_on sep p))
        = filter (\<lambda>x. x = ''..'') (split_on sep p)"
    by (simp, rule filter_cong, auto)
  moreover have "validate_path base (Str p) =
           (if startswith (str (Path p)) (str base) then Inr (Path p)
            else Inl (ValueError
                       (''Invalid path: Access denied. Path must be within '' @ str base)))"
    using assms by (simp add: validate_path_def Let_def)
  ultimately show ?thesis
    using root_Path_absolute [OF assms] str_Path_absolute [OF assms]
    by (simp add: tail_Path)
qed

theorem validate_path_absolute_unresolved_witness:
  "startswith ''/base/../etc'' ''/''
   \<and> validate_path (Path ''/base'') (Str ''/base/../etc'') = Inr (Path ''/base/../etc'')
   \<and> root (Path ''/base/../etc'') = ''/''
   \<and> tail (Path ''/base/../etc'') = [''base'', ''..'', ''etc'']
   \<and> str (Path ''/base/../etc'') = ''/base/../etc''"
  using validate_path_absolute_unresolved [of "''/base/../etc''" "Path ''/base''"]
  by (simp add: Path_def splitroot_def str_def startswith_def sep_def)

section \<open>Properties of the session\<close>

lemma make_connect_kwargs_upd [simp]:
  "make_connect_kwargs (s\<lparr>ssh_client := c, next_client := n\<rparr>) = make_connect_kwargs s"
  by (simp add: make_connect_kwargs_def)

lemma remote_connect_active: "transport_active s \<Longrightarrow> remote_connect env s = (None, s)"
  by (simp add: remote_connect_def)

lemma calls_remote_connect_fresh:
  "\<not> transport_active s \<Longrightarrow>
   calls (snd (remote_connect env s)) =
     calls s @ CallConnect (make_connect_kwargs s) #
       (if connect env (make_connect_kwargs s) = ConnectOk then [CallOpenSftp] else [])"
  by (simp add: remote_connect_def Let_def log_call_def
        split: connect_result.splits option.splits)

lemma remote_connect_noop_iff: "remote_connect env s = (None, s) \<longleftrightarrow> transport_active s"
proof
  assume eq: "remote_connect env s = (None, s)"
  show "transport_active s"
  proof (rule ccontr)
    assume "\<not> transport_active s"
    from calls_remote_connect_fresh [OF this, of env] eq show False by simp
  qed
next
  assume "transport_active s"
  then show "remote_connect env s = (None, s)" by (rule remote_connect_active)
qed

lemma remote_connect_fresh:
  assumes "\<not> transport_active s"
    and "connect env (make_connect_kwargs s) = ConnectOk"
    and "open_sftp env = None"
  shows "remote_connect env s =
           (None, s\<lparr>ssh_client := Some \<lparr>client_id = next_client s,
                                        get_transport = Some (Transport True)\<rparr>,
                     sftp_client := Some \<lparr>channel_of = next_client s\<rparr>,
                     next_client := Suc (next_client s),
                     calls := calls s @ [CallConnect (make_connect_kwargs s), CallOpenSftp]\<rparr>)"
  using assms
  by (simp add: remote_connect_def Let_def log_call_def)

lemma remote_connect_fresh_connected:
  assumes "\<not> transport_active s"
    and "connect env (make_connect_kwargs s) = ConnectOk"
    and "open_sftp env = None"
  shows "fst (remote_connect env s) = None \<and> connected (snd (remote_connect env s))"
  by (simp add: remote_connect_fresh [OF assms] connected_def)

lemma remote_connect_ok_cases:
  assumes "fst (remote_connect env s) = None"
  shows "(transport_active s \<and> snd (remote_connect env s) = s) \<or> connected (snd (remote_connect env s))"
  using assms
  by (auto simp add: remote_connect_def Let_def log_call_def connected_def
        split: connect_result.splits option.splits if_splits)

lemma remote_connect_preserves_invariant:
  assumes "session_invariant s" and "fst (remote_connect env s) = None"
  shows "session_invariant (snd (remote_connect env s))"
  using remote_connect_ok_cases [OF assms(2)] assms(1)
  by (auto simp add: session_invariant_def)

lemma remote_connect_ok_client:
  "fst (remote_connect env s) = None \<Longrightarrow> ssh_client (snd (remote_connect env s)) \<noteq> None"
  by (auto simp add: remote_connect_def Let_def log_call_def transport_active_def
        split: connect_result.splits option.splits if_splits)

lemma remote_connect_fields:
  "base_path (snd (remote_connect env s)) = base_path s
   \<and> hostname (snd (remote_connect env s)) = hostname s"
  by (simp add: remote_connect_def Let_def log_call_def split: connect_result.splits option.splits)

lemma remote_close_none:
  "ssh_client s = None \<Longrightarrow> sftp_client s = None \<Longrightarrow> remote_close env s = (None, s)"
  by (simp add: remote_close_def)

lemma remote_close_ok:
  assumes "sftp_close env = None" and "ssh_close env = None"
  shows "remote_close env s =
           (None, s\<lparr>ssh_client := None, sftp_client := None,
                     calls := calls s @ (if sftp_client s \<noteq> None then [CallSftpClose] else [])
                                      @ (if ssh_client s \<noteq> None then [CallSshClose] else [])\<rparr>)"
  using assms by (cases "sftp_client s"; cases "ssh_client s") (simp_all add: remote_close_def log_call_def)

lemma remote_close_returns:
  assumes "fst (remote_close env s) = None"
  shows "ssh_client (snd (remote_close env s)) = None \<and> sftp_client (snd (remote_close env s)) = None"
  using assms
  by (cases "sftp_client s"; cases "ssh_client s")
     (simp_all add: remote_close_def log_call_def split: option.splits)

lemma remote_close_fields:
  "make_connect_kwargs (snd (remote_close env s)) = make_connect_kwargs s"
  by (cases "sftp_client s"; cases "ssh_client s")
     (simp_all add: remote_close_def log_call_def make_connect_kwargs_def split: option.splits)

lemma not_active_without_client: "ssh_client s = None \<Longrightarrow> \<not> transport_active s"
  by (simp add: transport_active_def)

text \<open>Every operation changes the two handles only through \<open>remote_connect\<close>.\<close>

lemma session_invariant_handles:
  "ssh_client s = ssh_client t \<Longrightarrow> sftp_client s = sftp_client t \<Longrightarrow>
   session_invariant s = session_invariant t"
  by (simp add: session_invariant_def disconnected_def connected_def cong: option.case_cong)

lemma handles_log_call [simp]:
  "ssh_client (log_call c s) = ssh_client s" "sftp_client (log_call c s) = sftp_client s"
  "base_path (log_call c s) = base_path s"
  by (simp_all add: log_call_def)

lemma handles_search_loop:
  "ssh_client (snd (search_loop env fl s rs)) = ssh_client s
   \<and> sftp_client (snd (search_loop env fl s rs)) = sftp_client s"
  by (induction env fl s rs rule: search_loop.induct)
     (auto simp add: Let_def split: option.splits sum.splits)

lemma handles_read_file:
  "ssh_client (snd (remote_read_file env lib s p)) = ssh_client (snd (remote_connect env s))
   \<and> sftp_client (snd (remote_read_file env lib s p)) = sftp_client (snd (remote_connect env s))"
  by (cases "remote_connect env s")
     (auto simp add: remote_read_file_def Let_def split: option.splits sum.splits)

lemma handles_write_file:
  "ssh_client (snd (remote_write_file env lib s p c)) = ssh_client (snd (remote_connect env s))
   \<and> sftp_client (snd (remote_write_file env lib s p c)) = sftp_client (snd (remote_connect env s))"
  by (cases "remote_connect env s")
     (auto simp add: remote_write_file_def Let_def split: option.splits sum.splits)

lemma handles_list_directory:
  "ssh_client (snd (remote_list_directory env s p)) = ssh_client (snd (remote_connect env s))
   \<and> sftp_client (snd (remote_list_directory env s p)) = sftp_client (snd (remote_connect env s))"
  by (cases "remote_connect env s")
     (auto simp add: remote_list_directory_def Let_def split: option.splits sum.splits)

lemma handles_search_files:
  "ssh_client (snd (remote_search_files env lib s pat p)) = ssh_client (snd (remote_connect env s))
   \<and> sftp_client (snd (remote_search_files env lib s pat p)) = sftp_client (snd (remote_connect env s))"
  by (cases "remote_connect env s")
     (simp add: remote_search_files_def Let_def handles_search_loop case_prod_unfold
           split: option.splits sum.splits)

lemma handles_execute_command:
  "ssh_client (snd (remote_execute_command env lib s c)) = ssh_client (snd (remote_connect env s))
   \<and> sftp_client (snd (remote_execute_command env lib s c)) = sftp_client (snd (remote_connect env s))"
  by (cases "remote_connect env s")
     (simp add: remote_execute_command_def Let_def case_prod_unfold split: option.splits sum.splits)

text \<open>The concrete host: the unfolding of its definitions, and its first connection.\<close>

lemmas example_defs =
  example_manager_def init_manager_def example_remote_def example_lib_def no_sftp_remote_def

lemma example_connect:
  "remote_connect example_remote example_manager =
     (None, example_manager
        \<lparr>ssh_client := Some \<lparr>client_id = 0, get_transport = Some (Transport True)\<rparr>,
         sftp_client := Some \<lparr>channel_of = 0\<rparr>,
         next_client := Suc 0,
         calls := [CallConnect (make_connect_kwargs example_manager), CallOpenSftp]\<rparr>)"
  by (simp add: remote_connect_fresh transport_active_def example_defs)

lemma example_decode:
  "decode_utf8 example_lib [104, 105, 10] = Some [CHR ''h'', CHR ''i'', CHR 0x0A]"
  "decode_utf8 example_lib [104, 105] = Some ''hi''"
  "decode_utf8 example_lib [] = Some ''''"
  by (simp_all add: example_lib_def) code_simp+

lemma invariant_after_operation:
  assumes "session_invariant s" and "fst (remote_connect env s) = None"
    and "ssh_client t = ssh_client (snd (remote_connect env s))
         \<and> sftp_client t = sftp_client (snd (remote_connect env s))"
  shows "session_invariant t"
  using remote_connect_preserves_invariant [OF assms(1,2)] assms(3)
    session_invariant_handles [of t "snd (remote_connect env s)"]
  by simp

text \<open>
  What \<open>remote_connect\<close> does keep. It is a no-op exactly when the stored client has
  an active transport. Otherwise it issues \<open>connect\<close> on a new client and, only after
  \<open>connect\<close> has succeeded, \<open>open_sftp\<close>; when both succeed the session is
  connected. A \<open>remote_connect\<close> that returns keeps the invariant, and so does every
  operation whose \<open>remote_connect\<close> returned; a \<open>remote_close\<close> that returns
  leaves the session disconnected.
\<close>

lemma remote_connect_contract:
  "(remote_connect env s = (None, s) \<longleftrightarrow> transport_active s)
   \<and> (\<not> transport_active s \<longrightarrow>
        calls (snd (remote_connect env s)) =
          calls s @ CallConnect (make_connect_kwargs s) #
            (if connect env (make_connect_kwargs s) = ConnectOk then [CallOpenSftp] else []))
   \<and> (\<not> transport_active s \<and> connect env (make_connect_kwargs s) = ConnectOk
        \<and> open_sftp env = None \<longrightarrow>
        fst (remote_connect env s) = None
        \<and> connected (snd (remote_connect env s))
        \<and> ssh_client (snd (remote_connect env s)) =
            Some \<lparr>client_id = next_client s, get_transport = Some (Transport True)\<rparr>
        \<and> sftp_client (snd (remote_connect env s)) = Some \<lparr>channel_of = next_client s\<rparr>)
   \<and> (session_invariant s \<and> fst (remote_connect env s) = None \<longrightarrow>
        session_invariant (snd (remote_connect env s))
        \<and> session_invariant (snd (remote_read_file env lib s p))
        \<and> session_invariant (snd (remote_write_file env lib s p c))
        \<and> session_invariant (snd (remote_list_directory env s p))
        \<and> session_invariant (snd (remote_search_files env lib s pat p))
        \<and> session_invariant (snd (remote_execute_command env lib s cmd)))
   \<and> (fst (remote_close env s) = None \<longrightarrow>
        disconnected (snd (remote_close env s))
        \<and> session_invariant (snd (remote_close env s)))"
proof (intro conjI impI)
  show "remote_connect env s = (None, s) \<longleftrightarrow> transport_active s"
    by (rule remote_connect_noop_iff)
next
  assume "\<not> transport_active s"
  then show "calls (snd (remote_connect env s)) =
          calls s @ CallConnect (make_connect_kwargs s) #
            (if connect env (make_connect_kwargs s) = ConnectOk then [CallOpenSftp] else [])"
    by (rule calls_remote_connect_fresh)
next
  assume a: "\<not> transport_active s \<and> connect env (make_connect_kwargs s) = ConnectOk
        \<and> open_sftp env = None"
  then have eq: "remote_connect env s =
           (None, s\<lparr>ssh_client := Some \<lparr>client_id = next_client s,
                                        get_transport = Some (Transport True)\<rparr>,
                     sftp_client := Some \<lparr>channel_of = next_client s\<rparr>,
                     next_client := Suc (next_client s),
                     calls := calls s @ [CallConnect (make_connect_kwargs s), CallOpenSftp]\<rparr>)"
    by (simp add: remote_connect_fresh)
  show "fst (remote_connect env s) = None" by (simp add: eq)
  show "connected (snd (remote_connect env s))" by (simp add: eq connected_def)
  show "ssh_client (snd (remote_connect env s)) =
            Some \<lparr>client_id = next_client s, get_transport = Some (Transport True)\<rparr>"
    by (simp add: eq)
  show "sftp_client (snd (remote_connect env s)) = Some \<lparr>channel_of = next_client s\<rparr>"
    by (simp add: eq)
next
  assume a: "session_invariant s \<and> fst (remote_connect env s) = None"
  then have i: "session_invariant s" and r: "fst (remote_connect env s) = None" by simp_all
  show "session_invariant (snd (remote_connect env s))"
    by (rule remote_connect_preserves_invariant [OF i r])
  show "session_invariant (snd (remote_read_file env lib s p))"
    by (rule invariant_after_operation [OF i r handles_read_file])
  show "session_invariant (snd (remote_write_file env lib s p c))"
    by (rule invariant_after_operation [OF i r handles_write_file])
  show "session_invariant (snd (remote_list_directory env s p))"
    by (rule invariant_after_operation [OF i r handles_list_directory])
  show "session_invariant (snd (remote_search_files env lib s pat p))"
    by (rule invariant_after_operation [OF i r handles_search_files])
  show "session_invariant (snd (remote_execute_command env lib s cmd))"
    by (rule invariant_after_operation [OF i r handles_execute_command])
next
  assume "fst (remote_close env s) = None"
  from remote_close_returns [OF this]
  show "disconnected (snd (remote_close env s))" by (simp add: disconnected_def)
  then show "session_invariant (snd (remote_close env s))"
    by (simp add: session_invariant_def)
qed

lemma example_stuck:
  "remote_connect no_sftp_remote example_manager =
     (Some (OtherError ''Channel closed.''),
      example_manager
        \<lparr>ssh_client := Some \<lparr>client_id = 0, get_transport = Some (Transport True)\<rparr>,
         next_client := Suc 0,
         calls := [CallConnect (make_connect_kwargs example_manager), CallOpenSftp]\<rparr>)"
  by (simp add: remote_connect_def Let_def log_call_def transport_active_def example_defs
        make_connect_kwargs_def)

text \<open>
  C4. The session should always be either disconnected or connected with an active
  transport and its sub-channel, and \<open>remote_connect\<close> should be a no-op only when
  both are there. When the host accepts the connection and refuses the SFTP channel,
  \<open>remote_connect\<close> raises and leaves a client with an active transport and no
  sub-channel: the session, disconnected before, is now neither disconnected nor
  connected. Nothing repairs it: a later \<open>remote_connect\<close> returns at once, also on a
  host that would open the channel, because its guard looks at the transport only, and
  reading a file then fails on the missing SFTP handle.
\<close>

theorem sftp_failure_breaks_invariant:
  "disconnected example_manager
   \<and> session_invariant example_manager
   \<and> fst (remote_connect no_sftp_remote example_manager) = Some (OtherError ''Channel closed.'')
   \<and> transport_active (snd (remote_connect no_sftp_remote example_manager))
   \<and> sftp_client (snd (remote_connect no_sftp_remote example_manager)) = None
   \<and> \<not> connected (snd (remote_connect no_sftp_remote example_manager))
   \<and> \<not> disconnected (snd (remote_connect no_sftp_remote example_manager))
   \<and> \<not> session_invariant (snd (remote_connect no_sftp_remote example_manager))
   \<and> remote_connect no_sftp_remote (snd (remote_connect no_sftp_remote example_manager)) =
       (None, snd (remote_connect no_sftp_remote example_manager))
   \<and> remote_connect example_remote (snd (remote_connect no_sftp_remote example_manager)) =
       (None, snd (remote_connect no_sftp_remote example_manager))
   \<and> remote_read_file example_remote example_lib
        (snd (remote_connect no_sftp_remote example_manager)) ''a'' =
       (Inl (Exception (''Error reading file a: '' @ exn_str (none_attribute_error ''getfo''))),
        snd (remote_connect no_sftp_remote example_manager))"
proof -
  let ?t = "snd (remote_connect no_sftp_remote example_manager)"
  have d: "disconnected example_manager"
    by (simp add: disconnected_def example_manager_def init_manager_def)
  have bp: "base_path example_manager = Path ''/home/user''"
    by (simp add: example_manager_def init_manager_def)
  have h: "ssh_client ?t = Some \<lparr>client_id = 0, get_transport = Some (Transport True)\<rparr>"
    "sftp_client ?t = None" "base_path ?t = Path ''/home/user''"
    by (simp_all add: example_stuck bp) (simp add: example_manager_def init_manager_def)
  have a: "transport_active ?t" by (simp add: transport_active_def h)
  have nc: "\<not> connected ?t" by (simp add: connected_def h)
  have nd: "\<not> disconnected ?t" by (simp add: disconnected_def h)
  have r: "remote_connect no_sftp_remote ?t = (None, ?t)"
    "remote_connect example_remote ?t = (None, ?t)"
    by (simp_all add: remote_connect_active [OF a])
  have v: "validate_path (Path ''/home/user'') (Str ''a'') = Inr (Path ''/home/user/a'')"
    by (simp add: validate_path_def normpath_def truediv_def Path_def splitroot_def str_def
          startswith_def sep_def)
  have rd: "remote_read_file example_remote example_lib ?t ''a'' =
       (Inl (Exception (''Error reading file a: '' @ exn_str (none_attribute_error ''getfo''))), ?t)"
    unfolding remote_read_file_def
    by (subst r(2)) (simp add: h v reraise_read_def none_attribute_error_def)
  have si: "session_invariant example_manager" using d by (simp add: session_invariant_def)
  have e: "fst (remote_connect no_sftp_remote example_manager) = Some (OtherError ''Channel closed.'')"
    by (simp add: example_stuck)
  have nsi: "\<not> session_invariant ?t" using nc nd by (simp add: session_invariant_def)
  from d si e a h(2) nc nd nsi r rd show ?thesis by blast
qed

section \<open>Properties of closing and reconnecting\<close>

text \<open>
  The result of the search loop depends on the session only through the base path and
  the presence of the SFTP handle.
\<close>

lemma search_loop_result:
  "(sftp_client s = None) = (sftp_client t = None) \<Longrightarrow> base_path s = base_path t \<Longrightarrow>
   fst (search_loop env fl s rs) = fst (search_loop env fl t rs)"
proof (induction fl arbitrary: s t rs)
  case Nil
  then show ?case by simp
next
  case (Cons a fl)
  note p1 = Cons.prems(1) and p2 = Cons.prems(2)
  show ?case
  proof (cases "strip_empty a")
    case True
    then show ?thesis using Cons.IH [OF p1 p2, of rs] by simp
  next
    case False
    show ?thesis
    proof (cases "sftp_client s")
      case None
      then have "sftp_client t = None" using p1 by simp
      with None False show ?thesis using Cons.IH [OF p1 p2, of rs] by simp
    next
      case (Some f)
      then obtain g where g: "sftp_client t = Some g" using p1 by auto
      have h: "(sftp_client (log_call (CallStat a) s) = None)
               = (sftp_client (log_call (CallStat a) t) = None)"
        using Some g by simp
      have b: "base_path (log_call (CallStat a) s) = base_path (log_call (CallStat a) t)"
        using p2 by simp
      show ?thesis
      proof (cases "stat env a")
        case (Inl e)
        with False Some g show ?thesis
          using Cons.IH [OF h b, of rs] by (simp add: Let_def)
      next
        case (Inr st)
        with False Some g p2 show ?thesis
          using Cons.IH [OF h b] by (simp add: Let_def)
      qed
    qed
  qed
qed


lemma close_base_path: "base_path (snd (remote_close env s)) = base_path s"
  by (cases "sftp_client s"; cases "ssh_client s")
     (simp_all add: remote_close_def log_call_def split: option.splits)

text \<open>
  What an operation sees of the session after \<open>remote_connect\<close> has returned: the
  base path and whether each handle is there.
\<close>

lemma reconnect_same_view:
  assumes "connected s" and "fst (remote_close env s) = None"
    and "connect env' (make_connect_kwargs s) = ConnectOk" and "open_sftp env' = None"
  shows "\<exists>t c f d g. remote_connect env' (snd (remote_close env s)) = (None, t)
           \<and> remote_connect env' s = (None, s)
           \<and> base_path t = base_path s
           \<and> ssh_client t = Some c \<and> sftp_client t = Some f
           \<and> ssh_client s = Some d \<and> sftp_client s = Some g"
proof -
  from assms(1) obtain d g where d: "ssh_client s = Some d" and g: "sftp_client s = Some g"
    and tr: "get_transport d = Some (Transport True)"
    by (auto simp add: connected_def split: option.splits)
  have act: "transport_active s" using d tr by (simp add: transport_active_def)
  have r: "remote_connect env' s = (None, s)" by (rule remote_connect_active [OF act])
  let ?c = "snd (remote_close env s)"
  have c: "ssh_client ?c = None" using remote_close_returns [OF assms(2)] by simp
  have n: "\<not> transport_active ?c" by (rule not_active_without_client [OF c])
  have k: "connect env' (make_connect_kwargs ?c) = ConnectOk"
    using assms(3) by (simp add: remote_close_fields)
  note f = remote_connect_fresh [OF n k assms(4)]
  show ?thesis
    using r d g by (simp add: f close_base_path)
qed


lemma execute_after_reconnect:
  assumes "connected s" and "fst (remote_close env s) = None"
    and "connect env' (make_connect_kwargs s) = ConnectOk" and "open_sftp env' = None"
  shows "fst (remote_execute_command env' lib (snd (remote_close env s)) cmd)
         = fst (remote_execute_command env' lib s cmd)"
proof -
  from reconnect_same_view [OF assms] obtain t c f d g where
    v: "remote_connect env' (snd (remote_close env s)) = (None, t)"
       "remote_connect env' s = (None, s)" "base_path t = base_path s"
       "ssh_client t = Some c" "sftp_client t = Some f"
       "ssh_client s = Some d" "sftp_client s = Some g"
    by blast
  show ?thesis
    by (simp add: remote_execute_command_def v Let_def case_prod_unfold
          split: option.split sum.split)
qed

lemma read_after_reconnect:
  assumes "connected s" and "fst (remote_close env s) = None"
    and "connect env' (make_connect_kwargs s) = ConnectOk" and "open_sftp env' = None"
  shows "fst (remote_read_file env' lib (snd (remote_close env s)) path)
         = fst (remote_read_file env' lib s path)"
proof -
  from reconnect_same_view [OF assms] obtain t c f d g where
    v: "remote_connect env' (snd (remote_close env s)) = (None, t)"
       "remote_connect env' s = (None, s)" "base_path t = base_path s"
       "ssh_client t = Some c" "sftp_client t = Some f"
       "ssh_client s = Some d" "sftp_client s = Some g"
    by blast
  show ?thesis
    by (simp add: remote_read_file_def v Let_def case_prod_unfold
          split: option.split sum.split)
qed

lemma write_after_reconnect:
  assumes "connected s" and "fst (remote_close env s) = None"
    and "connect env' (make_connect_kwargs s) = ConnectOk" and "open_sftp env' = None"
  shows "fst (remote_write_file env' lib (snd (remote_close env s)) path content)
         = fst (remote_write_file env' lib s path content)"
proof -
  from reconnect_same_view [OF assms] obtain t c f d g where
    v: "remote_connect env' (snd (remote_close env s)) = (None, t)"
       "remote_connect env' s = (None, s)" "base_path t = base_path s"
       "ssh_client t = Some c" "sftp_client t = Some f"
       "ssh_client s = Some d" "sftp_client s = Some g"
    by blast
  show ?thesis
    by (simp add: remote_write_file_def v Let_def case_prod_unfold
          split: option.split sum.split)
qed

lemma list_after_reconnect:
  assumes "connected s" and "fst (remote_close env s) = None"
    and "connect env' (make_connect_kwargs s) = ConnectOk" and "open_sftp env' = None"
  shows "fst (remote_list_directory env' (snd (remote_close env s)) path)
         = fst (remote_list_directory env' s path)"
proof -
  from reconnect_same_view [OF assms] obtain t c f d g where
    v: "remote_connect env' (snd (remote_close env s)) = (None, t)"
       "remote_connect env' s = (None, s)" "base_path t = base_path s"
       "ssh_client t = Some c" "sftp_client t = Some f"
       "ssh_client s = Some d" "sftp_client s = Some g"
    by blast
  show ?thesis
    by (simp add: remote_list_directory_def v Let_def case_prod_unfold
          split: option.split sum.split)
qed

lemma search_after_reconnect:
  assumes "connected s" and "fst (remote_close env s) = None"
    and "connect env' (make_connect_kwargs s) = ConnectOk" and "open_sftp env' = None"
  shows "fst (remote_search_files env' lib (snd (remote_close env s)) pat path)
         = fst (remote_search_files env' lib s pat path)"
proof -
  from reconnect_same_view [OF assms] obtain t c f d g where
    v: "remote_connect env' (snd (remote_close env s)) = (None, t)"
       "remote_connect env' s = (None, s)" "base_path t = base_path s"
       "ssh_client t = Some c" "sftp_client t = Some f"
       "ssh_client s = Some d" "sftp_client s = Some g"
    by blast
  have sl: "\<And>fl k. fst (search_loop env' fl (log_call k t) [])
                   = fst (search_loop env' fl (log_call k s) [])"
    by (rule search_loop_result) (simp_all add: v)
  show ?thesis
    by (simp add: remote_search_files_def v sl Let_def case_prod_unfold close_base_path
          split: option.split sum.split)
qed

text \<open>
  C8. \<open>remote_close\<close> on a session with no handle (never connected, or already
  closed) does nothing and does not raise, whatever the library would answer. When the
  library's two \<open>close\<close> calls do not raise, \<open>remote_close\<close> returns on every
  state, closes the sub-channel before the transport and leaves the session
  disconnected. After a \<open>remote_close\<close> that returned, a second one changes
  nothing and does not raise, and a \<open>remote_connect\<close> on a host that accepts the
  connection gives a connected session again; each operation then returns what it
  would have returned on the connected session before the close.
\<close>

theorem remote_close_idempotent:
  "(ssh_client s = None \<and> sftp_client s = None \<longrightarrow> remote_close env s = (None, s))
   \<and> remote_close env (init_manager h p u pw k b) = (None, init_manager h p u pw k b)
   \<and> (sftp_close env = None \<and> ssh_close env = None \<longrightarrow>
        fst (remote_close env s) = None
        \<and> disconnected (snd (remote_close env s))
        \<and> calls (snd (remote_close env s)) =
            calls s @ (if sftp_client s \<noteq> None then [CallSftpClose] else [])
                    @ (if ssh_client s \<noteq> None then [CallSshClose] else []))
   \<and> (fst (remote_close env s) = None \<longrightarrow>
        remote_close env' (snd (remote_close env s)) = (None, snd (remote_close env s)))
   \<and> (fst (remote_close env s) = None \<and> connect env' (make_connect_kwargs s) = ConnectOk
        \<and> open_sftp env' = None \<longrightarrow>
        fst (remote_connect env' (snd (remote_close env s))) = None
        \<and> connected (snd (remote_connect env' (snd (remote_close env s)))))
   \<and> (connected s \<and> fst (remote_close env s) = None
        \<and> connect env' (make_connect_kwargs s) = ConnectOk \<and> open_sftp env' = None \<longrightarrow>
        fst (remote_read_file env' lib (snd (remote_close env s)) path)
          = fst (remote_read_file env' lib s path)
        \<and> fst (remote_write_file env' lib (snd (remote_close env s)) path content)
          = fst (remote_write_file env' lib s path content)
        \<and> fst (remote_list_directory env' (snd (remote_close env s)) path)
          = fst (remote_list_directory env' s path)
        \<and> fst (remote_search_files env' lib (snd (remote_close env s)) pat path)
          = fst (remote_search_files env' lib s pat path)
        \<and> fst (remote_execute_command env' lib (snd (remote_close env s)) cmd)
          = fst (remote_execute_command env' lib s cmd))"
proof (intro conjI impI)
  assume "ssh_client s = None \<and> sftp_client s = None"
  then show "remote_close env s = (None, s)" by (simp add: remote_close_none)
next
  show "remote_close env (init_manager h p u pw k b) = (None, init_manager h p u pw k b)"
    by (simp add: remote_close_none init_manager_def)
next
  assume a: "sftp_close env = None \<and> ssh_close env = None"
  then have eq: "remote_close env s =
           (None, s\<lparr>ssh_client := None, sftp_client := None,
                     calls := calls s @ (if sftp_client s \<noteq> None then [CallSftpClose] else [])
                                      @ (if ssh_client s \<noteq> None then [CallSshClose] else [])\<rparr>)"
    by (simp add: remote_close_ok)
  show "fst (remote_close env s) = None" by (simp add: eq)
  show "disconnected (snd (remote_close env s))" by (simp add: eq disconnected_def)
  show "calls (snd (remote_close env s)) =
            calls s @ (if sftp_client s \<noteq> None then [CallSftpClose] else [])
                    @ (if ssh_client s \<noteq> None then [CallSshClose] else [])"
    by (simp add: eq)
next
  assume "fst (remote_close env s) = None"
  from remote_close_returns [OF this]
  show "remote_close env' (snd (remote_close env s)) = (None, snd (remote_close env s))"
    by (simp add: remote_close_none)
next
  assume a: "fst (remote_close env s) = None \<and> connect env' (make_connect_kwargs s) = ConnectOk
        \<and> open_sftp env' = None"
  then have c: "ssh_client (snd (remote_close env s)) = None"
    using remote_close_returns by blast
  have n: "\<not> transport_active (snd (remote_close env s))"
    by (rule not_active_without_client [OF c])
  have k: "connect env' (make_connect_kwargs (snd (remote_close env s))) = ConnectOk"
    using a by (simp add: remote_close_fields)
  have o: "open_sftp env' = None" using a by simp
  from remote_connect_fresh_connected [OF n k o]
  show "fst (remote_connect env' (snd (remote_close env s))) = None"
    and "connected (snd (remote_connect env' (snd (remote_close env s))))"
    by simp_all
next
  assume a: "connected s \<and> fst (remote_close env s) = None
        \<and> connect env' (make_connect_kwargs s) = ConnectOk \<and> open_sftp env' = None"
  then have a1: "connected s" and a2: "fst (remote_close env s) = None"
    and a3: "connect env' (make_connect_kwargs s) = ConnectOk" and a4: "open_sftp env' = None"
    by simp_all
  show "fst (remote_read_file env' lib (snd (remote_close env s)) path)
          = fst (remote_read_file env' lib s path)"
    by (rule read_after_reconnect [OF a1 a2 a3 a4])
  show "fst (remote_write_file env' lib (snd (remote_close env s)) path content)
          = fst (remote_write_file env' lib s path content)"
    by (rule write_after_reconnect [OF a1 a2 a3 a4])
  show "fst (remote_list_directory env' (snd (remote_close env s)) path)
          = fst (remote_list_directory env' s path)"
    by (rule list_after_reconnect [OF a1 a2 a3 a4])
  show "fst (remote_search_files env' lib (snd (remote_close env s)) pat path)
          = fst (remote_search_files env' lib s pat path)"
    by (rule search_after_reconnect [OF a1 a2 a3 a4])
  show "fst (remote_execute_command env' lib (snd (remote_close env s)) cmd)
          = fst (remote_execute_command env' lib s cmd)"
    by (rule execute_after_reconnect [OF a1 a2 a3 a4])
qed

theorem remote_close_idempotent_witness:
  "sftp_close example_remote = None \<and> ssh_close example_remote = None
   \<and> connected (snd (remote_connect example_remote example_manager))
   \<and> fst (remote_close example_remote (snd (remote_connect example_remote example_manager))) = None
   \<and> calls (snd (remote_close example_remote (snd (remote_connect example_remote example_manager))))
       = [CallConnect (make_connect_kwargs example_manager), CallOpenSftp, CallSftpClose, CallSshClose]
   \<and> disconnected (snd (remote_close example_remote (snd (remote_connect example_remote example_manager))))
   \<and> remote_close example_remote
        (snd (remote_close example_remote (snd (remote_connect example_remote example_manager))))
       = (None, snd (remote_close example_remote (snd (remote_connect example_remote example_manager))))
   \<and> connect example_remote (make_connect_kwargs (snd (remote_connect example_remote example_manager))) = ConnectOk
   \<and> open_sftp example_remote = None
   \<and> connected (snd (remote_connect example_remote
        (snd (remote_close example_remote (snd (remote_connect example_remote example_manager))))))
   \<and> fst (remote_execute_command example_remote example_lib
        (snd (remote_close example_remote (snd (remote_connect example_remote example_manager))))
        ''echo hi'')
       = fst (remote_execute_command example_remote example_lib
        (snd (remote_connect example_remote example_manager)) ''echo hi'')
   \<and> ssh_client example_manager = None \<and> sftp_client example_manager = None
   \<and> remote_close example_remote example_manager = (None, example_manager)"
proof -
  let ?s = "snd (remote_connect example_remote example_manager)"
  note t1 = remote_close_idempotent [where s = ?s and env = example_remote
      and env' = example_remote and lib = example_lib and cmd = "''echo hi''"]
  note t2 = remote_close_idempotent [where s = example_manager and env = example_remote]
  have e: "sftp_close example_remote = None" "ssh_close example_remote = None"
    "open_sftp example_remote = None"
    "connect example_remote (make_connect_kwargs ?s) = ConnectOk"
    by (simp_all add: example_remote_def)
  have c: "connected ?s" by (simp add: example_connect connected_def)
  have h: "sftp_client ?s \<noteq> None" "ssh_client ?s \<noteq> None"
    "calls ?s = [CallConnect (make_connect_kwargs example_manager), CallOpenSftp]"
    by (simp_all add: example_connect)
  have i: "ssh_client example_manager = None" "sftp_client example_manager = None"
    by (simp_all add: example_manager_def init_manager_def)
  from t1 e c have r: "fst (remote_close example_remote ?s) = None" by blast
  show ?thesis
    using t1 t2 e c h i r by simp
qed


section \<open>Properties of command execution\<close>

text \<open>The base path takes no part in the connection nor in the execution of a command.\<close>

lemma remote_connect_base_path:
  "remote_connect env (s\<lparr>base_path := b\<rparr>) =
     (fst (remote_connect env s), (snd (remote_connect env s))\<lparr>base_path := b\<rparr>)"
  by (simp add: remote_connect_def Let_def log_call_def transport_active_def
        make_connect_kwargs_def split: connect_result.splits option.splits)

lemma execute_command_base_path:
  "fst (remote_execute_command env lib (s\<lparr>base_path := b\<rparr>) command) =
   fst (remote_execute_command env lib s command)"
  by (cases "remote_connect env s")
     (simp add: remote_execute_command_def remote_connect_base_path Let_def case_prod_unfold
        split: option.splits sum.splits)

text \<open>
  C7. \<open>remote_execute_command\<close> hands the command string as it is to
  \<open>exec_command\<close>, with no confinement: its result is the same whatever the base
  path is. It returns the whole standard output and the whole standard error, both
  decoded. The exit status takes no part in the result: whatever it is, the result is
  the pair of texts.
\<close>

theorem remote_execute_command_passthrough:
  "fst (remote_execute_command env lib (s\<lparr>base_path := b\<rparr>) command) =
     fst (remote_execute_command env lib s command)
   \<and> (remote_connect env s = (None, s1) \<and> exec_command env command = Inr (out, err, status)
        \<and> decode_utf8 lib out = Some out_text \<and> decode_utf8 lib err = Some err_text \<longrightarrow>
        remote_execute_command env lib s command =
          (Inr (out_text, err_text), log_call (CallExecCommand command) s1))"
proof (intro conjI impI)
  show "fst (remote_execute_command env lib (s\<lparr>base_path := b\<rparr>) command) =
     fst (remote_execute_command env lib s command)"
    by (rule execute_command_base_path)
next
  assume a: "remote_connect env s = (None, s1) \<and> exec_command env command = Inr (out, err, status)
        \<and> decode_utf8 lib out = Some out_text \<and> decode_utf8 lib err = Some err_text"
  with remote_connect_ok_client [of env s]
  obtain c where "ssh_client s1 = Some c" by auto
  with a show "remote_execute_command env lib s command =
          (Inr (out_text, err_text), log_call (CallExecCommand command) s1)"
    by (simp add: remote_execute_command_def Let_def)
qed

theorem remote_execute_command_passthrough_witness:
  "remote_connect example_remote example_manager =
     (None, snd (remote_connect example_remote example_manager))
   \<and> exec_command example_remote ''cat /etc/passwd; exit 1'' = Inr ([104, 105, 10], [], 1)
   \<and> decode_utf8 example_lib [104, 105, 10] = Some [CHR ''h'', CHR ''i'', CHR 0x0A]
   \<and> decode_utf8 example_lib [] = Some ''''
   \<and> fst (remote_execute_command example_remote example_lib example_manager ''cat /etc/passwd; exit 1'')
       = Inr ([CHR ''h'', CHR ''i'', CHR 0x0A], '''')
   \<and> calls (snd (remote_execute_command example_remote example_lib example_manager
                    ''cat /etc/passwd; exit 1''))
       = [CallConnect (make_connect_kwargs example_manager), CallOpenSftp,
          CallExecCommand ''cat /etc/passwd; exit 1'']"
  using remote_execute_command_passthrough [where env = example_remote and s = example_manager
      and ?s1.0 = "snd (remote_connect example_remote example_manager)"
      and command = "''cat /etc/passwd; exit 1''"
      and out = "[104, 105, 10]" and err = "[]" and status = 1 and lib = example_lib
      and out_text = "[CHR ''h'', CHR ''i'', CHR 0x0A]" and err_text = "''''"]
  by (simp add: example_connect log_call_def example_decode) (simp add: example_remote_def)

section \<open>Properties of the operations on paths\<close>

text \<open>
  Reading, writing and listing confine their path before the file-transfer call: when
  the confinement rejects, the operation ends with the state that \<open>remote_connect\<close>
  left, so no call follows the connection.
\<close>

lemma read_file_confined:
  "remote_connect env s = (None, s1) \<Longrightarrow> validate_path (base_path s) (Str path) = Inl e \<Longrightarrow>
   remote_read_file env lib s path = (Inl e, s1)"
  using remote_connect_fields [of env s] by (simp add: remote_read_file_def)

lemma write_file_confined:
  "remote_connect env s = (None, s1) \<Longrightarrow> validate_path (base_path s) (Str path) = Inl e \<Longrightarrow>
   remote_write_file env lib s path content = (Inl e, s1)"
  using remote_connect_fields [of env s] by (simp add: remote_write_file_def)

lemma list_directory_confined:
  "remote_connect env s = (None, s1) \<Longrightarrow> path \<noteq> '''' \<Longrightarrow>
   validate_path (base_path s) (Str path) = Inl e \<Longrightarrow>
   remote_list_directory env s path = (Inl e, s1)"
  using remote_connect_fields [of env s] by (simp add: remote_list_directory_def)

text \<open>
  C2. Every operation that takes a path should confine it before any remote call, the
  root of a search included, and a rejected path should reach no remote call.
  \<open>remote_search_files\<close> never calls \<open>_validate_path\<close>: with the base path
  \<open>/home/user\<close> the search root \<open>/etc\<close>, which the confinement rejects and
  which \<open>remote_read_file\<close> refuses, goes into the \<open>find\<close> command that is run
  on the host.
\<close>

theorem remote_search_files_unconfined:
  "validate_path (base_path example_manager) (Str ''/etc'')
     = Inl (ValueError ''Invalid path: Access denied. Path must be within /home/user'')
   \<and> remote_read_file example_remote example_lib example_manager ''/etc''
     = (Inl (ValueError ''Invalid path: Access denied. Path must be within /home/user''),
        snd (remote_connect example_remote example_manager))
   \<and> fst (remote_search_files example_remote example_lib example_manager ''passwd'' ''/etc'') = Inr []
   \<and> calls (snd (remote_search_files example_remote example_lib example_manager ''passwd'' ''/etc''))
     = [CallConnect (make_connect_kwargs example_manager), CallOpenSftp,
        CallExecCommand (find_command ''/etc'' ''passwd''), CallStat ''hi'']"
proof -
  have v: "validate_path (base_path example_manager) (Str ''/etc'')
     = Inl (ValueError ''Invalid path: Access denied. Path must be within /home/user'')"
    by (simp add: example_manager_def init_manager_def validate_path_def Path_def splitroot_def
          str_def startswith_def sep_def)
  have r: "remote_read_file example_remote example_lib example_manager ''/etc''
     = (Inl (ValueError ''Invalid path: Access denied. Path must be within /home/user''),
        snd (remote_connect example_remote example_manager))"
    by (rule read_file_confined [OF _ v]) (simp add: example_connect)
  have l: "splitlines [CHR ''h'', CHR ''i'', CHR 0x0A] = [''hi'']"
    by (simp add: splitlines_def is_linebreak_def)
  have b: "\<not> strip_empty ''hi''"
    by (simp add: strip_empty_def is_space_def)
  have s: "remote_search_files example_remote example_lib example_manager ''passwd'' ''/etc''
     = (Inr [], example_manager
        \<lparr>ssh_client := Some \<lparr>client_id = 0, get_transport = Some (Transport True)\<rparr>,
         sftp_client := Some \<lparr>channel_of = 0\<rparr>,
         next_client := Suc 0,
         calls := [CallConnect (make_connect_kwargs example_manager), CallOpenSftp,
                   CallExecCommand (find_command ''/etc'' ''passwd''), CallStat ''hi'']\<rparr>)"
    by (simp add: remote_search_files_def example_connect Let_def log_call_def example_decode l b)
       (simp add: example_remote_def example_decode l b log_call_def)
  show ?thesis using v r s by simp
qed

lemma item_of_child:
  "item_name (list_item '''' attr) = filename attr \<and> item_path (list_item '''' attr) = filename attr"
  by (simp add: list_item_def Let_def)

text \<open>
  C6. The empty path is the root: confining it gives the base path itself, and
  \<open>remote_list_directory\<close> with the empty path lists the base directory. Once the
  session is connected and the host answers the listing of the base directory, the
  result is one entry per child, in the order of the answer, each with the child's
  name as its path.
\<close>

theorem empty_path_is_root:
  "validate_path base (Str '''') = Inr base
   \<and> (remote_connect env s = (None, s1) \<and> sftp_client s1 \<noteq> None
        \<and> listdir_attr env (str (base_path s)) = Inr attr_list \<longrightarrow>
        remote_list_directory env s '''' =
          (Inr (map (list_item '''') attr_list),
           log_call (CallListdirAttr (str (base_path s))) s1)
        \<and> map item_name (map (list_item '''') attr_list) = map filename attr_list
        \<and> map item_path (map (list_item '''') attr_list) = map filename attr_list)"
proof (intro conjI impI)
  show "validate_path base (Str '''') = Inr base" by (rule validate_path_empty)
next
  assume a: "remote_connect env s = (None, s1) \<and> sftp_client s1 \<noteq> None
        \<and> listdir_attr env (str (base_path s)) = Inr attr_list"
  then have b: "base_path s1 = base_path s"
    using remote_connect_fields [of env s] by simp
  from a b show "remote_list_directory env s '''' =
          (Inr (map (list_item '''') attr_list),
           log_call (CallListdirAttr (str (base_path s))) s1)"
    by (auto simp add: remote_list_directory_def Let_def)
next
  show "map item_name (map (list_item '''') attr_list) = map filename attr_list"
    by (simp add: item_of_child)
next
  show "map item_path (map (list_item '''') attr_list) = map filename attr_list"
    by (simp add: item_of_child)
qed

theorem empty_path_is_root_witness:
  "remote_connect example_remote example_manager =
     (None, snd (remote_connect example_remote example_manager))
   \<and> sftp_client (snd (remote_connect example_remote example_manager)) \<noteq> None
   \<and> listdir_attr example_remote (str (base_path example_manager)) =
       Inr [\<lparr>filename = ''a'', st_mode = 33188, st_size = 10, st_mtime = 0\<rparr>,
            \<lparr>filename = ''b'', st_mode = 16877, st_size = 4096, st_mtime = 0\<rparr>]
   \<and> str (base_path example_manager) = ''/home/user''
   \<and> validate_path (base_path example_manager) (Str '''') = Inr (base_path example_manager)
   \<and> fst (remote_list_directory example_remote example_manager '''') =
       Inr [\<lparr>item_name = ''a'', item_path = ''a'', item_type = ''file'', item_size = Some 10,
              item_permissions = 33188, item_modified = 0\<rparr>,
            \<lparr>item_name = ''b'', item_path = ''b'', item_type = ''directory'', item_size = None,
              item_permissions = 16877, item_modified = 0\<rparr>]
   \<and> calls (snd (remote_list_directory example_remote example_manager '''')) =
       [CallConnect (make_connect_kwargs example_manager), CallOpenSftp,
        CallListdirAttr ''/home/user'']"
proof -
  have p: "str (base_path example_manager) = ''/home/user''"
    by (simp add: example_manager_def init_manager_def Path_def splitroot_def str_def sep_def)
  have l: "listdir_attr example_remote ''/home/user'' =
       Inr [\<lparr>filename = ''a'', st_mode = 33188, st_size = 10, st_mtime = 0\<rparr>,
            \<lparr>filename = ''b'', st_mode = 16877, st_size = 4096, st_mtime = 0\<rparr>]"
    by (simp add: example_remote_def)
  show ?thesis
    using empty_path_is_root [of "base_path example_manager" example_remote example_manager
        "snd (remote_connect example_remote example_manager)"
        "[\<lparr>filename = ''a'', st_mode = 33188, st_size = 10, st_mtime = 0\<rparr>,
          \<lparr>filename = ''b'', st_mode = 16877, st_size = 4096, st_mtime = 0\<rparr>]"]
    by (simp add: p l example_connect log_call_def list_item_def S_ISDIR_def)
qed

section \<open>Properties of the resources\<close>

text \<open>
  On a string, \<open>uri.split('/', 3)[3]\<close> is what follows the third separator, so the
  path of an identifier \<open>ssh://host/path\<close> comes back when the host name has no
  separator.
\<close>

lemma split_max_first:
  "c \<notin> set a \<Longrightarrow> split_max c (Suc n) (a @ c # rest) = a # split_max c n rest"
  by (induction a) auto

lemma count_list_append: "count_list (xs @ ys) c = count_list xs c + count_list ys c"
  by (induction xs) auto

lemma uri_path_three:
  assumes "sep \<notin> set a" and "sep \<notin> set b" and "sep \<notin> set c"
  shows "uri_path (a @ sep # b @ sep # c @ sep # rest) = Inr rest"
proof -
  have "split_max sep 3 (a @ sep # b @ sep # c @ sep # rest) = [a, b, c, rest]"
    using assms by (simp add: numeral_3_eq_3 split_max_first)
  moreover have "3 \<le> count_list (a @ sep # b @ sep # c @ sep # rest) sep"
    by (simp add: count_list_append)
  ultimately show ?thesis by (simp add: uri_path_def)
qed

lemma uri_path_few: "count_list uri sep < 3 \<Longrightarrow> uri_path uri = Inr ''''"
  by (simp add: uri_path_def)

lemma uri_path_of_resource:
  assumes "sep \<notin> set host"
  shows "uri_path (''ssh://'' @ host @ ''/'' @ p) = Inr p"
  using uri_path_three [of "''ssh:''" "''''" host p] assms
  by (simp add: sep_def)

lemma read_resource_str:
  "uri_path x = Inr path \<Longrightarrow>
   read_resource env lib s (UriStr x) =
     (case remote_read_file env lib s path of
        (Inl e, s2) \<Rightarrow> (Inl e, s2)
      | (Inr (content, mime), s2) \<Rightarrow> (Inr content, s2))"
  by (simp add: read_resource_def)

text \<open>On a URL object, \<open>read_resource\<close> raises before anything is read.\<close>

lemma read_resource_url:
  "read_resource env lib s (UriObj u) = (Inl (url_attribute_error ''count''), s)"
  by (simp add: read_resource_def)

lemma example_list:
  "remote_list_directory example_remote example_manager '''' =
     (Inr [\<lparr>item_name = ''a'', item_path = ''a'', item_type = ''file'', item_size = Some 10,
            item_permissions = 33188, item_modified = 0\<rparr>,
           \<lparr>item_name = ''b'', item_path = ''b'', item_type = ''directory'', item_size = None,
            item_permissions = 16877, item_modified = 0\<rparr>],
      log_call (CallListdirAttr ''/home/user'') (snd (remote_connect example_remote example_manager)))"
proof -
  have p: "str (base_path example_manager) = ''/home/user''"
    by (simp add: example_manager_def init_manager_def Path_def splitroot_def str_def sep_def)
  have b: "base_path (snd (remote_connect example_remote example_manager)) = base_path example_manager"
    by (simp add: remote_connect_fields)
  have l: "listdir_attr example_remote ''/home/user'' =
       Inr [\<lparr>filename = ''a'', st_mode = 33188, st_size = 10, st_mtime = 0\<rparr>,
            \<lparr>filename = ''b'', st_mode = 16877, st_size = 4096, st_mtime = 0\<rparr>]"
    by (simp add: example_remote_def)
  have c: "remote_connect example_remote example_manager =
     (None, snd (remote_connect example_remote example_manager))"
    by (simp add: example_connect)
  have f: "sftp_client (snd (remote_connect example_remote example_manager)) = Some \<lparr>channel_of = 0\<rparr>"
    by (simp add: example_connect)
  show ?thesis
    unfolding remote_list_directory_def
    by (subst c) (simp add: f b p l Let_def list_item_def S_ISDIR_def)
qed

lemma example_read:
  "fst (remote_read_file example_remote example_lib example_manager ''a'') = Inr (''hi'', ''text/plain'')"
proof -
  have v: "validate_path (base_path example_manager) (Str ''a'') = Inr (Path ''/home/user/a'')"
    by (simp add: example_manager_def init_manager_def validate_path_def normpath_def
          truediv_def Path_def splitroot_def str_def startswith_def sep_def)
  have p: "str (Path ''/home/user/a'') = ''/home/user/a''"
    by (simp add: Path_def splitroot_def str_def sep_def)
  have b: "base_path (snd (remote_connect example_remote example_manager)) = base_path example_manager"
    by (simp add: remote_connect_fields)
  have c: "remote_connect example_remote example_manager =
     (None, snd (remote_connect example_remote example_manager))"
    by (simp add: example_connect)
  have f: "sftp_client (snd (remote_connect example_remote example_manager)) = Some \<lparr>channel_of = 0\<rparr>"
    by (simp add: example_connect)
  have g: "getfo example_remote ''/home/user/a'' = Inr [104, 105]"
    by (simp add: example_remote_def)
  have m: "guess_type example_lib ''/home/user/a'' = None"
    by (simp add: example_lib_def)
  show ?thesis
    unfolding remote_read_file_def
    by (subst c) (simp add: f b v p g m Let_def example_decode)
qed

lemma spaced_connect:
  "remote_connect spaced_remote example_manager =
     (None, example_manager
        \<lparr>ssh_client := Some \<lparr>client_id = 0, get_transport = Some (Transport True)\<rparr>,
         sftp_client := Some \<lparr>channel_of = 0\<rparr>,
         next_client := Suc 0,
         calls := [CallConnect (make_connect_kwargs example_manager), CallOpenSftp]\<rparr>)"
  by (simp add: remote_connect_fresh transport_active_def example_defs spaced_remote_def)

lemma spaced_list:
  "remote_list_directory spaced_remote example_manager '''' =
     (Inr [\<lparr>item_name = ''a b'', item_path = ''a b'', item_type = ''file'', item_size = Some 10,
            item_permissions = 33188, item_modified = 0\<rparr>],
      log_call (CallListdirAttr ''/home/user'') (snd (remote_connect spaced_remote example_manager)))"
proof -
  have p: "str (base_path example_manager) = ''/home/user''"
    by (simp add: example_manager_def init_manager_def Path_def splitroot_def str_def sep_def)
  have b: "base_path (snd (remote_connect spaced_remote example_manager)) = base_path example_manager"
    by (simp add: remote_connect_fields)
  have l: "listdir_attr spaced_remote ''/home/user'' =
       Inr [\<lparr>filename = ''a b'', st_mode = 33188, st_size = 10, st_mtime = 0\<rparr>]"
    by (simp add: spaced_remote_def)
  have c: "remote_connect spaced_remote example_manager =
     (None, snd (remote_connect spaced_remote example_manager))"
    by (simp add: spaced_connect)
  have f: "sftp_client (snd (remote_connect spaced_remote example_manager)) = Some \<lparr>channel_of = 0\<rparr>"
    by (simp add: spaced_connect)
  show ?thesis
    unfolding remote_list_directory_def
    by (subst c) (simp add: f b p l Let_def list_item_def S_ISDIR_def)
qed

text \<open>
  C9. An identifier should be \<open>ssh://\<close>, host name, \<open>/\<close>, path of the entry, and
  reading it should take what follows its third \<open>/\<close> as the path and return what
  \<open>remote_read_file\<close> gives for it. The handler treats the identifier as a string,
  as its annotation and its comment say, but it is called with the URL object of the
  request: for the identifier \<open>ssh://host/a\<close> that \<open>list_resources\<close> gave,
  \<open>read_resource\<close> raises an \<open>AttributeError\<close> and reads nothing, where the same
  text as a string would have read the file \<open>a\<close>. And the identifier is what the
  URL parser makes of the text: for the entry \<open>a b\<close> it is
  \<open>ssh://host/a%20b\<close>, whose part after the third \<open>/\<close> is not the path of the
  entry.
\<close>

theorem read_resource_fails_on_url:
  "map_sum id (map res_uri) (fst (list_resources example_remote example_lib example_mcp example_manager))
     = Inr [AnyUrl ''ssh://host/a'', AnyUrl ''ssh://host/b'']
   \<and> read_resource example_remote example_lib example_manager (UriObj (AnyUrl ''ssh://host/a''))
     = (Inl (url_attribute_error ''count''), example_manager)
   \<and> uri_path ''ssh://host/a'' = Inr ''a''
   \<and> fst (read_resource example_remote example_lib example_manager (UriStr ''ssh://host/a''))
     = Inr ''hi''
   \<and> map_sum id (map res_uri) (fst (list_resources spaced_remote example_lib example_mcp example_manager))
     = Inr [AnyUrl ''ssh://host/a%20b'']
   \<and> uri_path ''ssh://host/a%20b'' = Inr ''a%20b''
   \<and> ''a%20b'' \<noteq> ''a b''"
proof -
  have hn: "hostname example_manager = ''host''"
    by (simp add: example_manager_def init_manager_def)
  have l1: "map_sum id (map res_uri)
              (fst (list_resources example_remote example_lib example_mcp example_manager))
     = Inr [AnyUrl ''ssh://host/a'', AnyUrl ''ssh://host/b'']"
    by (simp add: list_resources_def example_list example_connect log_call_def hn
          resource_of_def example_mcp_def)
  have l2: "map_sum id (map res_uri)
              (fst (list_resources spaced_remote example_lib example_mcp example_manager))
     = Inr [AnyUrl ''ssh://host/a%20b'']"
    by (simp add: list_resources_def spaced_list spaced_connect log_call_def hn
          resource_of_def example_mcp_def)
  have h: "sep \<notin> set ''host''" by (simp add: sep_def)
  have u1: "uri_path ''ssh://host/a'' = Inr ''a''"
    using uri_path_of_resource [OF h, of "''a''"] by simp
  have u2: "uri_path ''ssh://host/a%20b'' = Inr ''a%20b''"
    using uri_path_of_resource [OF h, of "''a%20b''"] by simp
  have rs: "fst (read_resource example_remote example_lib example_manager (UriStr ''ssh://host/a''))
     = Inr ''hi''"
    using example_read
    by (cases "remote_read_file example_remote example_lib example_manager ''a''")
       (auto simp add: read_resource_str [OF u1])
  show ?thesis
    using l1 l2 u1 u2 rs by (simp add: read_resource_url)
qed

section \<open>Properties of the startup checks\<close>

text \<open>
  C5, as stated, fails: a configuration that carries both a password and a key file
  passes the checks.
\<close>

theorem check_config_accepts_both:
  "truthy (dict_get both_credentials ''hostname'')
   \<and> truthy (dict_get both_credentials ''username'')
   \<and> truthy (dict_get both_credentials ''password'')
   \<and> truthy (dict_get both_credentials ''key_filename'')
   \<and> check_config both_credentials = Inr both_credentials"
  by (simp add: check_config_def dict_get_def both_credentials_def)

text \<open>
  C5, amended. Startup fails with the error for the host name when the host name is
  missing, with the error for the user name when the user name is missing, and with
  the error for the credentials when neither a password nor a key file is given. At
  least one of the two credentials must be present; a configuration with a host name,
  a user name and one or both credentials is accepted.
\<close>

theorem check_config_at_least_one:
  "(\<not> truthy (dict_get cfg ''hostname'') \<longrightarrow> check_config cfg = Inl HostnameRequired)
   \<and> (truthy (dict_get cfg ''hostname'') \<and> \<not> truthy (dict_get cfg ''username'') \<longrightarrow>
        check_config cfg = Inl UsernameRequired)
   \<and> (truthy (dict_get cfg ''hostname'') \<and> truthy (dict_get cfg ''username'')
        \<and> \<not> truthy (dict_get cfg ''password'') \<and> \<not> truthy (dict_get cfg ''key_filename'') \<longrightarrow>
        check_config cfg = Inl PasswordOrKeyRequired)
   \<and> (truthy (dict_get cfg ''hostname'') \<and> truthy (dict_get cfg ''username'')
        \<and> (truthy (dict_get cfg ''password'') \<or> truthy (dict_get cfg ''key_filename'')) \<longrightarrow>
        check_config cfg = Inr cfg)"
  by (simp add: check_config_def)

theorem check_config_at_least_one_witness:
  "\<not> truthy (dict_get no_hostname ''hostname'')
   \<and> check_config no_hostname = Inl HostnameRequired
   \<and> truthy (dict_get no_username ''hostname'') \<and> \<not> truthy (dict_get no_username ''username'')
   \<and> check_config no_username = Inl UsernameRequired
   \<and> truthy (dict_get no_credentials ''hostname'') \<and> truthy (dict_get no_credentials ''username'')
   \<and> \<not> truthy (dict_get no_credentials ''password'')
   \<and> \<not> truthy (dict_get no_credentials ''key_filename'')
   \<and> check_config no_credentials = Inl PasswordOrKeyRequired
   \<and> truthy (dict_get both_credentials ''password'')
   \<and> check_config both_credentials = Inr both_credentials"
  using check_config_at_least_one [of no_hostname] check_config_at_least_one [of no_username]
    check_config_at_least_one [of no_credentials] check_config_at_least_one [of both_credentials]
  by (simp add: dict_get_def no_hostname_def no_username_def no_credentials_def
        both_credentials_def)

end
